theory Spec2Isabelle
  imports Main
begin

unbundle bit_operations_syntax

section \<open>Library functions the client calls\<close>

text \<open>
  Go strings and byte slices are sequences of bytes. Both are modelled as \<^typ>\<open>string\<close>,
  a list of 8-bit characters, so that the conversion \<^verbatim>\<open>[]byte(str)\<close> is the identity.
\<close>

type_synonym byte = char
type_synonym uint32 = nat

subsection \<open>strings.Join and strings.HasSuffix\<close>

fun Join :: "string list \<Rightarrow> string \<Rightarrow> string" where
  "Join [] sep = []"
| "Join [x] sep = x"
| "Join (x # y # ys) sep = x @ sep @ Join (y # ys) sep"

definition HasSuffix :: "string \<Rightarrow> string \<Rightarrow> bool" where
  "HasSuffix s suffix \<longleftrightarrow>
     length suffix \<le> length s \<and> drop (length s - length suffix) s = suffix"

subsection \<open>encoding/hex\<close>

definition hextable :: string where
  "hextable = ''0123456789abcdef''"

fun EncodeToString :: "byte list \<Rightarrow> string" where
  "EncodeToString [] = []"
| "EncodeToString (v # src) =
     hextable ! (of_char v div 16) # hextable ! (of_char v mod 16) # EncodeToString src"

subsection \<open>crypto/sha1\<close>

text \<open>
  SHA-1 as the standard library computes it (FIPS 180-4). A 32-bit unsigned value is a
  natural number below \<open>2 ^ 32\<close>; every operation that can leave that range in Go's
  \<^verbatim>\<open>uint32\<close> arithmetic is reduced modulo \<open>2 ^ 32\<close> here.
\<close>

definition add32 :: "uint32 \<Rightarrow> uint32 \<Rightarrow> uint32" where
  "add32 x y = (x + y) mod 2 ^ 32"

definition RotateLeft32 :: "uint32 \<Rightarrow> nat \<Rightarrow> uint32" where
  "RotateLeft32 x k = (x * 2 ^ k) mod 2 ^ 32 OR x div 2 ^ (32 - k)"

type_synonym digest = "uint32 \<times> uint32 \<times> uint32 \<times> uint32 \<times> uint32"

definition init :: digest where
  "init = (0x67452301, 0xEFCDAB89, 0x98BADCFE, 0x10325476, 0xC3D2E1F0)"

text \<open>The sixteen big-endian words of a chunk, the last word first.\<close>

fun chunk_words :: "uint32 list \<Rightarrow> byte list \<Rightarrow> uint32 list" where
  "chunk_words acc (p0 # p1 # p2 # p3 # p) =
     chunk_words
       ((of_char p0 * 2 ^ 24 OR of_char p1 * 2 ^ 16 OR of_char p2 * 2 ^ 8 OR of_char p3) # acc) p"
| "chunk_words acc p = acc"

text \<open>
  The message schedule, kept in reverse: the head of the list is the newest word
  \<open>w\<^sub>t\<close>, so that \<open>w\<^sub>t\<^sub>-\<^sub>3\<close> is at index 2 and \<open>w\<^sub>t\<^sub>-\<^sub>1\<^sub>6\<close> at index 15.
\<close>

fun schedule :: "nat \<Rightarrow> uint32 list \<Rightarrow> uint32 list" where
  "schedule 0 w = w"
| "schedule (Suc n) w =
     schedule n (RotateLeft32 (w ! 2 XOR w ! 7 XOR w ! 13 XOR w ! 15) 1 # w)"

fun round_step :: "nat \<Rightarrow> uint32 \<Rightarrow> digest \<Rightarrow> digest" where
  "round_step i w (a, b, c, d, e) =
     (add32 (add32 (add32 (add32 (RotateLeft32 a 5)
        (if i < 20 then (b AND c) OR ((b XOR 0xFFFFFFFF) AND d)
         else if i < 40 then b XOR c XOR d
         else if i < 60 then ((b OR c) AND d) OR (b AND c)
         else b XOR c XOR d)) e) w)
        (if i < 20 then 0x5A827999
         else if i < 40 then 0x6ED9EBA1
         else if i < 60 then 0x8F1BBCDC
         else 0xCA62C1D6),
      a, RotateLeft32 b 30, c, d)"

fun rounds :: "nat \<Rightarrow> uint32 list \<Rightarrow> digest \<Rightarrow> digest" where
  "rounds i [] s = s"
| "rounds i (w # ws) s = rounds (i + 1) ws (round_step i w s)"

fun add_digest :: "digest \<Rightarrow> digest \<Rightarrow> digest" where
  "add_digest (h0, h1, h2, h3, h4) (a, b, c, d, e) =
     (add32 h0 a, add32 h1 b, add32 h2 c, add32 h3 d, add32 h4 e)"

definition block :: "digest \<Rightarrow> byte list \<Rightarrow> digest" where
  "block h p = add_digest h (rounds 0 (rev (schedule 64 (chunk_words [] p))) h)"

text \<open>\<^verbatim>\<open>for len(p) >= chunk { ...; p = p[chunk:] }\<close>, the number of turns made explicit.\<close>

fun blocks :: "nat \<Rightarrow> digest \<Rightarrow> byte list \<Rightarrow> digest" where
  "blocks 0 h p = h"
| "blocks (Suc n) h p = blocks n (block h (take 64 p)) (drop 64 p)"

definition putUint64 :: "nat \<Rightarrow> byte list" where
  "putUint64 v = map (\<lambda>k. char_of (v div 2 ^ k)) [56, 48, 40, 32, 24, 16, 8, 0]"

definition putUint32 :: "uint32 \<Rightarrow> byte list" where
  "putUint32 v = map (\<lambda>k. char_of (v div 2 ^ k)) [24, 16, 8, 0]"

text \<open>
  Padding: the byte \<open>0x80\<close>, zero bytes up to 56 modulo 64, and the length of the
  message in bits as a 64-bit big-endian number.
\<close>

definition padding :: "nat \<Rightarrow> byte list" where
  "padding len =
     char_of (0x80 :: nat) # replicate ((119 - len mod 64) mod 64) (char_of (0 :: nat))
       @ putUint64 ((8 * len) mod 2 ^ 64)"

fun digest_bytes :: "digest \<Rightarrow> byte list" where
  "digest_bytes (h0, h1, h2, h3, h4) =
     putUint32 h0 @ putUint32 h1 @ putUint32 h2 @ putUint32 h3 @ putUint32 h4"

definition sha1_checkSum :: "byte list \<Rightarrow> byte list" where
  "sha1_checkSum msg =
     (let p = msg @ padding (length msg)
      in digest_bytes (blocks (length p div 64) init p))"


section \<open>Data model\<close>

subsection \<open>Wire documents\<close>

text \<open>
  An XML document as a tree: an element with its name, its attributes in order and its
  children in order, or character data.
\<close>

datatype XMLNode =
    Element string "(string \<times> string) list" "XMLNode list"
  | CharData string

subsection \<open>net/url and net/http values\<close>

record URL =
  Scheme :: string
  Host :: string
  Path :: string

record HTTPRequest =
  Method :: string
  URL :: URL
  ContentType :: string
  Body :: "XMLNode option"

text \<open>
  The response of an exchange. \<open>Request\<close> is the request that was sent to obtain it,
  as net/http's client records it.
\<close>

record HTTPResponse =
  StatusCode :: int
  Body :: string
  Request :: HTTPRequest

subsection \<open>Errors and panics\<close>

text \<open>
  \<open>ValidationError\<close> is the repository's error type. \<open>TrailingSlash\<close> is the error that
  \<^verbatim>\<open>NewClient\<close> makes with \<^verbatim>\<open>fmt.Errorf\<close>; the others stand for the error values of the
  standard library. \<open>NilPointerDereference\<close> is the runtime panic of reading a field
  through a nil pointer.
\<close>

datatype error =
    NilPointerDereference
  | WriteError string
  | TrailingSlash URL
  | URLParseError string
  | EncodeError string
  | TransportError string
  | DecodeError string
  | ValidationError HTTPResponse

text \<open>A call either panics or returns; a returned Go error is part of the returned value.\<close>

datatype 'a run = Panic error | Done 'a

subsection \<open>The signing context\<close>

record serviceAuthenticator =
  elementsToHash :: "string list"
  sharedSecret :: string

subsection \<open>Requests\<close>

record Amount =
  Amount :: string
  Currency :: string

record AutoSettle =
  Flag :: string

record CVN =
  Number :: string

record PaymentData =
  CVN :: CVN

record Country =
  Code :: string

record Address =
  Line1 :: string
  Line2 :: string
  Line3 :: string
  City :: string
  County :: string
  PostCode :: string
  Country :: "Country option"

record PhoneNumbers =
  Home :: string
  Work :: string
  Fax :: string
  Mobile :: string

record Payer =
  Ref :: string
  PayerType :: string
  Title :: string
  FirstName :: string
  Surname :: string
  Company :: string
  Email :: string
  DateOfBirth :: string
  State :: string
  PassPhrase :: string
  VatNumber :: string
  VariableReference :: string
  CustomerNumber :: string
  Address :: "Address option"
  PhoneNumbers :: "PhoneNumbers option"

record Card =
  Ref :: string
  PayerRef :: string
  Number :: string
  ExpDate :: string
  CardHolderName :: string
  Type :: string

subsection \<open>Responses\<close>

record CardIssuer =
  Bank :: string
  Country :: string
  CountryCode :: string
  Region :: string

text \<open>
  A struct that embeds \<^verbatim>\<open>serviceAuthenticator\<close> is a record extending it: the
  embedded fields, and the methods defined on the signing context, are available on it.
  The \<^verbatim>\<open>XMLName\<close> fields only carry the element names \<open>request\<close> and \<open>response\<close>,
  which are written into the encoder below.
\<close>

record ServiceResponse = serviceAuthenticator +
  Timestamp :: string
  MerchantID :: string
  Account :: string
  OrderID :: string
  AuthCode :: string
  Result :: string
  CVNResult :: string
  AVSPostcodeResponse :: string
  AVSAddressResponse :: string
  BatchId :: string
  Message :: string
  PasRef :: string
  TimeTaken :: string
  AuthTimeTaken :: string
  CardIssuer :: "CardIssuer option"
  Sha1Hash :: string

record CardStorageRequest = serviceAuthenticator +
  Type :: string
  Timestamp :: string
  MerchantID :: string
  Account :: string
  Channel :: string
  OrderID :: string
  PayerRef :: string
  PaymentMethod :: string
  Sha1Hash :: string
  Amount :: "Amount option"
  AutoSettle :: "AutoSettle option"
  PaymentData :: "PaymentData option"
  Payer :: "Payer option"
  Card :: "Card option"

subsection \<open>The client\<close>

text \<open>
  \<open>HTTPClient\<close> is the behaviour of the client's \<^verbatim>\<open>*http.Client\<close>: its answer to a
  request. \<open>BaseURL\<close> is a pointer and may be nil. The \<^verbatim>\<open>service\<close> value of the card
  storage service holds its path; its pointer back to the client is the client record
  that contains it.
\<close>

record service =
  Path :: string

record Client =
  HTTPClient :: "HTTPRequest \<Rightarrow> error + HTTPResponse"
  BaseURL :: "URL option"
  HashSecret :: string
  RebateHashSecret :: string
  MerchantID :: string
  APIPath :: string
  CardStorage :: service

text \<open>
  The functions of the standard library that are used and not modelled:
  \<^verbatim>\<open>(*url.URL).Parse\<close> on a receiver that may be nil, \<^verbatim>\<open>http.NewRequest\<close> on the
  resolved URL, and the XML decoder reading a response body into a fresh
  \<^verbatim>\<open>ServiceResponse\<close>.
\<close>

record Library =
  url_Parse :: "URL option \<Rightarrow> string \<Rightarrow> (error + URL) run"
  http_NewRequest :: "string \<Rightarrow> URL \<Rightarrow> XMLNode option \<Rightarrow> error + HTTPRequest"
  xml_Decode :: "string \<Rightarrow> error + ServiceResponse"

text \<open>The interface \<^verbatim>\<open>TimeFormatter\<close> has the single method \<^verbatim>\<open>Format\<close>.\<close>

record TimeFormatter =
  Format :: "string \<Rightarrow> string"

text \<open>
  The interface \<^verbatim>\<open>Marshaller\<close>: an object with a state, \<^verbatim>\<open>Write\<close> (which returns
  the new state, the number of bytes written and an error or nil) and \<^verbatim>\<open>Sum\<close>.
\<close>

record 's Marshaller =
  state :: 's
  Write :: "'s \<Rightarrow> byte list \<Rightarrow> 's \<times> nat \<times> error option"
  Sum :: "'s \<Rightarrow> byte list \<Rightarrow> byte list"


section \<open>The signature engine\<close>

text \<open>\<^verbatim>\<open>sha1.New()\<close>: a fresh hash, whose \<^verbatim>\<open>Write\<close> never returns an error.\<close>

definition sha1_New :: "byte list Marshaller" where
  "sha1_New =
     \<lparr> state = [],
       Write = (\<lambda>s p. (s @ p, length p, None)),
       Sum = (\<lambda>s b. b @ sha1_checkSum s) \<rparr>"

definition WriteString :: "'s Marshaller \<Rightarrow> string \<Rightarrow> 's Marshaller \<times> nat \<times> error option" where
  "WriteString w s =
     (case Write w (state w) s of (st, n, err) \<Rightarrow> (w\<lparr>state := st\<rparr>, n, err))"

definition hashAndEncode ::
  "'a serviceAuthenticator_scheme \<Rightarrow> 's Marshaller \<Rightarrow> string \<Rightarrow> error + string" where
  "hashAndEncode authenticator m str =
     (case WriteString m str of
        (m', n, Some err) \<Rightarrow> Inl err
      | (m', n, None) \<Rightarrow> Inr (EncodeToString (Sum m' (state m') [])))"

definition buildSignature :: "'a serviceAuthenticator_scheme \<Rightarrow> error + string" where
  "buildSignature authenticator =
     (case hashAndEncode authenticator sha1_New (Join (elementsToHash authenticator) ''.'') of
        Inl err \<Rightarrow> Inl err
      | Inr hashedElementsString \<Rightarrow>
          (case hashAndEncode authenticator sha1_New
                  (hashedElementsString @ ''.'' @ sharedSecret authenticator) of
             Inl err \<Rightarrow> Inl err
           | Inr signature \<Rightarrow> Inr signature))"

text \<open>
  The algorithm as the specification words it: join the elements with a dot, hash,
  hex-encode, append a dot and the secret, hash, hex-encode.
\<close>

definition computeChainedSignature :: "string list \<Rightarrow> string \<Rightarrow> string" where
  "computeChainedSignature elements secret =
     EncodeToString (sha1_checkSum
       (EncodeToString (sha1_checkSum (Join elements ''.'')) @ ''.'' @ secret))"

definition is_lower_hex :: "char \<Rightarrow> bool" where
  "is_lower_hex c \<longleftrightarrow> c \<in> set ''0123456789abcdef''"


section \<open>Response validation\<close>

text \<open>\<^verbatim>\<open>strconv\<close>'s decimal digits of a number, and \<^verbatim>\<open>fmt\<close>'s verb \<^verbatim>\<open>%d\<close> on an int.\<close>

fun digitsOf :: "nat \<Rightarrow> string" where
  "digitsOf n =
     (if n < 10 then [''0123456789'' ! n]
      else digitsOf (n div 10) @ [''0123456789'' ! (n mod 10)])"

declare digitsOf.simps [simp del]

definition formatInt :: "int \<Rightarrow> string" where
  "formatInt i = (if i < 0 then CHR ''-'' # digitsOf (nat (- i)) else digitsOf (nat i))"

text \<open>The method \<^verbatim>\<open>Error\<close> of \<^verbatim>\<open>*ValidationError\<close>, on the response the error holds.\<close>

definition ValidationError_Error :: "HTTPResponse \<Rightarrow> string" where
  "ValidationError_Error response =
     ''Validation Hash Error: method: '' @ Method (Request response)
       @ '', path: '' @ URL.Path (URL (Request response))
       @ '', status code:'' @ formatInt (StatusCode response)"

definition validateResponseHash :: "ServiceResponse \<Rightarrow> HTTPResponse \<Rightarrow> error option" where
  "validateResponseHash authenticator httpResponse =
     (case buildSignature authenticator of
        Inl err \<Rightarrow> Some err
      | Inr signature \<Rightarrow>
          if signature = ServiceResponse.Sha1Hash authenticator then None
          else Some (ValidationError httpResponse))"


section \<open>The client\<close>

definition DefaultBaseURL :: string where
  "DefaultBaseURL = ''https://test.realexpayments.com''"

definition DefaultMerchantID :: string where
  "DefaultMerchantID = ''realexsandbox''"

definition DefaultHashSecret :: string where
  "DefaultHashSecret = ''Po8lRRT67a''"

definition DefaultRebateHash :: string where
  "DefaultRebateHash = ''Po8lRRT67a''"

definition DefaultPath :: string where
  "DefaultPath = ''/epage-remote.cgi''"

text \<open>
  \<^verbatim>\<open>url.Parse(DefaultBaseURL)\<close>: the constant parses, to the scheme, the host and an
  empty path.
\<close>

definition url_Parse_DefaultBaseURL :: "error + URL" where
  "url_Parse_DefaultBaseURL =
     Inr \<lparr> Scheme = ''https'', Host = ''test.realexpayments.com'', URL.Path = [] \<rparr>"

text \<open>\<^verbatim>\<open>for _, option := range options { option(client) }\<close>\<close>

fun applyOptions :: "(Client \<Rightarrow> Client) list \<Rightarrow> Client \<Rightarrow> Client" where
  "applyOptions [] client = client"
| "applyOptions (option # options) client = applyOptions options (option client)"

text \<open>
  The client as \<^verbatim>\<open>NewClient\<close> first makes it. \<open>httpClient\<close> is the behaviour of the
  fresh \<^verbatim>\<open>&http.Client{}\<close>.
\<close>

definition defaultClient :: "(HTTPRequest \<Rightarrow> error + HTTPResponse) \<Rightarrow> URL \<Rightarrow> Client" where
  "defaultClient httpClient baseURL =
     \<lparr> HTTPClient = httpClient, BaseURL = Some baseURL,
       HashSecret = DefaultHashSecret, RebateHashSecret = DefaultRebateHash,
       Client.MerchantID = DefaultMerchantID, APIPath = [],
       CardStorage = \<lparr> service.Path = DefaultPath \<rparr> \<rparr>"

text \<open>
  The result is a panic, or the pair that Go returns: an error and no client, or a
  client and no error.
\<close>

definition NewClient ::
  "(HTTPRequest \<Rightarrow> error + HTTPResponse) \<Rightarrow> (Client \<Rightarrow> Client) list \<Rightarrow> (error + Client) run" where
  "NewClient httpClient options =
     (case url_Parse_DefaultBaseURL of
        Inl err \<Rightarrow> Done (Inl err)
      | Inr baseURL \<Rightarrow>
          (let client = defaultClient httpClient baseURL;
               client = applyOptions options client
           in case BaseURL client of
                None \<Rightarrow> Panic NilPointerDereference
              | Some u \<Rightarrow>
                  if HasSuffix (URL.Path u) ''/'' then Done (Inl (TrailingSlash u))
                  else Done (Inr client)))"

text \<open>
  \<open>encode\<close> is the XML encoder on the type of the body. \<^verbatim>\<open>body != nil\<close> is
  \<open>body \<noteq> None\<close>.
\<close>

definition NewRequest ::
  "Library \<Rightarrow> ('b \<Rightarrow> error + XMLNode) \<Rightarrow> Client \<Rightarrow> string \<Rightarrow> string \<Rightarrow> 'b option
     \<Rightarrow> (error + HTTPRequest) run" where
  "NewRequest lib encode client method urlStr body =
     (case url_Parse lib (BaseURL client) urlStr of
        Panic p \<Rightarrow> Panic p
      | Done (Inl err) \<Rightarrow> Done (Inl err)
      | Done (Inr rel) \<Rightarrow>
          (case (case body of
                   None \<Rightarrow> Inr None
                 | Some b \<Rightarrow> (case encode b of Inl err \<Rightarrow> Inl err | Inr doc \<Rightarrow> Inr (Some doc))) of
             Inl err \<Rightarrow> Done (Inl err)
           | Inr buffer \<Rightarrow>
               (case http_NewRequest lib method rel buffer of
                  Inl err \<Rightarrow> Done (Inl err)
                | Inr req \<Rightarrow> Done (Inr (req\<lparr>ContentType := ''application/xml''\<rparr>)))))"

text \<open>\<open>Do\<close> returns the response of the exchange and the value decoded from its body.\<close>

definition Do :: "Library \<Rightarrow> Client \<Rightarrow> HTTPRequest \<Rightarrow> error + HTTPResponse \<times> ServiceResponse" where
  "Do lib client req =
     (case HTTPClient client req of
        Inl err \<Rightarrow> Inl err
      | Inr resp \<Rightarrow>
          (case xml_Decode lib (HTTPResponse.Body resp) of
             Inl err \<Rightarrow> Inl err
           | Inr v \<Rightarrow> Inr (resp, v)))"

type_synonym Result = "ServiceResponse option \<times> HTTPResponse option \<times> error option"

text \<open>
  The first test of \<^verbatim>\<open>err\<close> in the source reads the named result before anything is
  assigned to it, so it never returns. When \<open>Do\<close> fails it has returned a nil response,
  which is what \<^verbatim>\<open>transmitRequest\<close> hands on.
\<close>

definition transmitRequest ::
  "Library \<Rightarrow> ('b \<Rightarrow> error + XMLNode) \<Rightarrow> Client \<Rightarrow> service \<Rightarrow> 'b \<Rightarrow> Result run" where
  "transmitRequest lib encode client transmitter request =
     (case NewRequest lib encode client ''POST'' (service.Path transmitter) (Some request) of
        Panic p \<Rightarrow> Panic p
      | Done (Inl err) \<Rightarrow> Done (None, None, Some err)
      | Done (Inr httpRequest) \<Rightarrow>
          (case Do lib client httpRequest of
             Inl err \<Rightarrow> Done (None, None, Some err)
           | Inr (httpResponse, decoded) \<Rightarrow>
               (let response = decoded\<lparr>elementsToHash :=
                      [ServiceResponse.Timestamp decoded, ServiceResponse.MerchantID decoded,
                       ServiceResponse.OrderID decoded, Result decoded, Message decoded,
                       PasRef decoded, AuthCode decoded]\<rparr>;
                    response = response\<lparr>sharedSecret := HashSecret client\<rparr>
                in case validateResponseHash response httpResponse of
                     Some err \<Rightarrow> Done (None, Some httpResponse, Some err)
                   | None \<Rightarrow> Done (Some response, Some httpResponse, None))))"


section \<open>The card storage service\<close>

subsection \<open>The wire document of a request\<close>

text \<open>
  What \<^verbatim>\<open>encoding/xml\<close> writes for a \<^verbatim>\<open>CardStorageRequest\<close>, read off the struct
  tags: exported fields only, in the order of declaration; \<^verbatim>\<open>attr\<close> fields as
  attributes; \<^verbatim>\<open>chardata\<close> as the text of the element; a nil pointer writes nothing,
  and neither does an empty string tagged \<^verbatim>\<open>omitempty\<close>.
\<close>

definition textElement :: "string \<Rightarrow> string \<Rightarrow> XMLNode" where
  "textElement name v = Element name [] [CharData v]"

definition omitempty :: "string \<Rightarrow> string \<Rightarrow> XMLNode list" where
  "omitempty name v = (if v = [] then [] else [textElement name v])"

definition pointer :: "('a \<Rightarrow> XMLNode) \<Rightarrow> 'a option \<Rightarrow> XMLNode list" where
  "pointer marshal p = (case p of None \<Rightarrow> [] | Some v \<Rightarrow> [marshal v])"

definition marshalAmount :: "Amount \<Rightarrow> XMLNode" where
  "marshalAmount a =
     Element ''amount'' [(''currency'', Currency a)] [CharData (Amount.Amount a)]"

definition marshalAutoSettle :: "AutoSettle \<Rightarrow> XMLNode" where
  "marshalAutoSettle a = Element ''autosettle'' [(''flag'', Flag a)] []"

definition marshalPaymentData :: "PaymentData \<Rightarrow> XMLNode" where
  "marshalPaymentData d =
     Element ''paymentdata'' []
       [Element ''cvn'' [] [textElement ''number'' (CVN.Number (CVN d))]]"

definition marshalCountry :: "Country \<Rightarrow> XMLNode" where
  "marshalCountry c = Element ''country'' [(''ref'', Code c)] []"

definition marshalAddress :: "Address \<Rightarrow> XMLNode" where
  "marshalAddress a =
     Element ''address'' []
       ([textElement ''line1'' (Line1 a), textElement ''line2'' (Line2 a),
         textElement ''line3'' (Line3 a), textElement ''city'' (City a),
         textElement ''county'' (County a), textElement ''postcode'' (PostCode a)]
        @ pointer marshalCountry (Address.Country a))"

definition marshalPhoneNumbers :: "PhoneNumbers \<Rightarrow> XMLNode" where
  "marshalPhoneNumbers p =
     Element ''phonenumbers'' []
       [textElement ''home'' (Home p), textElement ''work'' (Work p),
        textElement ''fax'' (Fax p), textElement ''mobile'' (Mobile p)]"

definition marshalPayer :: "Payer \<Rightarrow> XMLNode" where
  "marshalPayer p =
     Element ''payer''
       [(''ref'', Payer.Ref p), (''type'', PayerType p), (''title'', Title p)]
       ([textElement ''firstname'' (FirstName p), textElement ''surname'' (Surname p),
         textElement ''company'' (Company p), textElement ''email'' (Email p),
         textElement ''dateofbirth'' (DateOfBirth p), textElement ''state'' (State p),
         textElement ''passphrase'' (PassPhrase p), textElement ''vatnumber'' (VatNumber p),
         textElement ''varref'' (VariableReference p),
         textElement ''custnum'' (CustomerNumber p)]
        @ pointer marshalAddress (Payer.Address p)
        @ pointer marshalPhoneNumbers (Payer.PhoneNumbers p))"

definition marshalCard :: "Card \<Rightarrow> XMLNode" where
  "marshalCard c =
     Element ''card'' []
       [textElement ''ref'' (Card.Ref c), textElement ''payerref'' (Card.PayerRef c),
        textElement ''number'' (Card.Number c), textElement ''expdate'' (ExpDate c),
        textElement ''chname'' (CardHolderName c), textElement ''type'' (Card.Type c)]"

definition marshalRequest :: "CardStorageRequest \<Rightarrow> XMLNode" where
  "marshalRequest r =
     Element ''request''
       [(''type'', CardStorageRequest.Type r), (''timestamp'', CardStorageRequest.Timestamp r)]
       ([textElement ''merchantid'' (CardStorageRequest.MerchantID r)]
        @ omitempty ''account'' (CardStorageRequest.Account r)
        @ omitempty ''channel'' (Channel r)
        @ [textElement ''orderid'' (CardStorageRequest.OrderID r),
           textElement ''payerref'' (CardStorageRequest.PayerRef r)]
        @ omitempty ''paymentmethod'' (PaymentMethod r)
        @ [textElement ''sha1hash'' (CardStorageRequest.Sha1Hash r)]
        @ pointer marshalAmount (CardStorageRequest.Amount r)
        @ pointer marshalAutoSettle (AutoSettle r)
        @ pointer marshalPaymentData (PaymentData r)
        @ pointer marshalPayer (Payer r)
        @ pointer marshalCard (Card r))"

text \<open>The encoder on requests; it has nothing to refuse in a value of this type.\<close>

definition encodeRequest :: "CardStorageRequest \<Rightarrow> error + XMLNode" where
  "encodeRequest r = Inr (marshalRequest r)"

subsection \<open>The time source\<close>

definition formatTime :: "TimeFormatter \<Rightarrow> string \<Rightarrow> string" where
  "formatTime t layout = Format t layout"

text \<open>
  A \<^verbatim>\<open>time.Time\<close> as a \<^verbatim>\<open>TimeFormatter\<close>, by its calendar fields. The layout
  \<^verbatim>\<open>20060102150405\<close> is the year in four digits and the month, day, hour, minute and
  second in two, each written by the library's \<^verbatim>\<open>appendInt\<close>; what \<^verbatim>\<open>Format\<close> does
  with any other layout is the parameter \<open>other\<close>.
\<close>

record Time =
  Year :: int
  Month :: nat
  Day :: nat
  Hour :: nat
  Minute :: nat
  Second :: nat

definition appendInt :: "int \<Rightarrow> nat \<Rightarrow> string" where
  "appendInt x width =
     (if x < 0 then ''-'' else [])
       @ replicate (width - length (digitsOf (nat \<bar>x\<bar>))) CHR ''0'' @ digitsOf (nat \<bar>x\<bar>)"

definition Time_Format :: "(Time \<Rightarrow> string \<Rightarrow> string) \<Rightarrow> Time \<Rightarrow> TimeFormatter" where
  "Time_Format other t =
     \<lparr> Format = (\<lambda>layout.
         if layout = ''20060102150405''
         then appendInt (Year t) 4 @ appendInt (int (Month t)) 2 @ appendInt (int (Day t)) 2
                @ appendInt (int (Hour t)) 2 @ appendInt (int (Minute t)) 2
                @ appendInt (int (Second t)) 2
         else other t layout) \<rparr>"

definition is_digit :: "char \<Rightarrow> bool" where
  "is_digit c \<longleftrightarrow> c \<in> set ''0123456789''"

subsection \<open>Getters for the values that are hashed\<close>

definition getPayerRef :: "CardStorageRequest \<Rightarrow> string" where
  "getPayerRef request =
     (case Payer request of Some payer \<Rightarrow> Payer.Ref payer | None \<Rightarrow> [])"

definition getAmount :: "CardStorageRequest \<Rightarrow> string" where
  "getAmount request =
     (case CardStorageRequest.Amount request of Some amount \<Rightarrow> Amount.Amount amount | None \<Rightarrow> [])"

definition getCurrency :: "CardStorageRequest \<Rightarrow> string" where
  "getCurrency request =
     (case CardStorageRequest.Amount request of Some amount \<Rightarrow> Currency amount | None \<Rightarrow> [])"

definition getCardHolderName :: "CardStorageRequest \<Rightarrow> string" where
  "getCardHolderName request =
     (case Card request of Some crd \<Rightarrow> CardHolderName crd | None \<Rightarrow> [])"

definition getCardNumber :: "CardStorageRequest \<Rightarrow> string" where
  "getCardNumber request =
     (case Card request of Some crd \<Rightarrow> Card.Number crd | None \<Rightarrow> [])"

definition getCardRef :: "CardStorageRequest \<Rightarrow> string" where
  "getCardRef request =
     (case Card request of Some crd \<Rightarrow> Card.Ref crd | None \<Rightarrow> [])"

definition getCardExpDate :: "CardStorageRequest \<Rightarrow> string" where
  "getCardExpDate request =
     (case Card request of Some crd \<Rightarrow> ExpDate crd | None \<Rightarrow> [])"


subsection \<open>The eight operations\<close>

text \<open>
  Each operation takes the library, the value of \<^verbatim>\<open>Now()\<close>, the client of the service
  and the request, and returns the request as the call leaves it (the caller's request
  is assigned to in place) together with the panic or the returned triple.
\<close>

definition Authorize ::
  "Library \<Rightarrow> TimeFormatter \<Rightarrow> Client \<Rightarrow> CardStorageRequest \<Rightarrow> CardStorageRequest \<times> Result run" where
  "Authorize lib now client request =
     (let request = request\<lparr>CardStorageRequest.Timestamp := formatTime now ''20060102150405''\<rparr>;
          request = request\<lparr>CardStorageRequest.MerchantID := Client.MerchantID client\<rparr>;
          request = request\<lparr>CardStorageRequest.Type := ''receipt-in''\<rparr>
      in case CardStorageRequest.Amount request of
           None \<Rightarrow> (request, Panic NilPointerDereference)
         | Some amount \<Rightarrow>
             (let request = request\<lparr>elementsToHash :=
                    [CardStorageRequest.Timestamp request, CardStorageRequest.MerchantID request,
                     CardStorageRequest.OrderID request, Amount.Amount amount, Currency amount,
                     CardStorageRequest.PayerRef request]\<rparr>;
                  request = request\<lparr>sharedSecret := HashSecret client\<rparr>
              in case buildSignature request of
                   Inl err \<Rightarrow> (request, Done (None, None, Some err))
                 | Inr signature \<Rightarrow>
                     (let request = request\<lparr>CardStorageRequest.Sha1Hash := signature\<rparr>
                      in (request,
                          transmitRequest lib encodeRequest client (CardStorage client) request))))"

definition Validate ::
  "Library \<Rightarrow> TimeFormatter \<Rightarrow> Client \<Rightarrow> CardStorageRequest \<Rightarrow> CardStorageRequest \<times> Result run" where
  "Validate lib now client request =
     (let request = request\<lparr>CardStorageRequest.Timestamp := formatTime now ''20060102150405''\<rparr>;
          request = request\<lparr>CardStorageRequest.MerchantID := Client.MerchantID client\<rparr>;
          request = request\<lparr>CardStorageRequest.Type := ''receipt-in-otb''\<rparr>;
          request = request\<lparr>elementsToHash :=
            [CardStorageRequest.Timestamp request, CardStorageRequest.MerchantID request,
             CardStorageRequest.OrderID request, CardStorageRequest.PayerRef request]\<rparr>;
          request = request\<lparr>sharedSecret := HashSecret client\<rparr>
      in case buildSignature request of
           Inl err \<Rightarrow> (request, Done (None, None, Some err))
         | Inr signature \<Rightarrow>
             (let request = request\<lparr>CardStorageRequest.Sha1Hash := signature\<rparr>
              in (request,
                  transmitRequest lib encodeRequest client (CardStorage client) request)))"

definition Credit ::
  "Library \<Rightarrow> TimeFormatter \<Rightarrow> Client \<Rightarrow> CardStorageRequest \<Rightarrow> CardStorageRequest \<times> Result run" where
  "Credit lib now client request =
     (let request = request\<lparr>CardStorageRequest.Timestamp := formatTime now ''20060102150405''\<rparr>;
          request = request\<lparr>CardStorageRequest.MerchantID := Client.MerchantID client\<rparr>;
          request = request\<lparr>CardStorageRequest.Type := ''payment-out''\<rparr>;
          request = request\<lparr>elementsToHash :=
            [CardStorageRequest.Timestamp request, CardStorageRequest.MerchantID request,
             CardStorageRequest.OrderID request, getAmount request, getCurrency request,
             CardStorageRequest.PayerRef request]\<rparr>;
          request = request\<lparr>sharedSecret := RebateHashSecret client\<rparr>
      in case buildSignature request of
           Inl err \<Rightarrow> (request, Done (None, None, Some err))
         | Inr signature \<Rightarrow>
             (let request = request\<lparr>CardStorageRequest.Sha1Hash := signature\<rparr>
              in (request,
                  transmitRequest lib encodeRequest client (CardStorage client) request)))"

definition CreateCustomer ::
  "Library \<Rightarrow> TimeFormatter \<Rightarrow> Client \<Rightarrow> CardStorageRequest \<Rightarrow> CardStorageRequest \<times> Result run" where
  "CreateCustomer lib now client request =
     (let request = request\<lparr>CardStorageRequest.Timestamp := formatTime now ''20060102150405''\<rparr>;
          request = request\<lparr>CardStorageRequest.MerchantID := Client.MerchantID client\<rparr>;
          request = request\<lparr>CardStorageRequest.Type := ''payer-new''\<rparr>;
          request = request\<lparr>elementsToHash :=
            [CardStorageRequest.Timestamp request, CardStorageRequest.MerchantID request,
             CardStorageRequest.OrderID request, getAmount request, getCurrency request,
             getPayerRef request]\<rparr>;
          request = request\<lparr>sharedSecret := HashSecret client\<rparr>
      in case buildSignature request of
           Inl err \<Rightarrow> (request, Done (None, None, Some err))
         | Inr signature \<Rightarrow>
             (let request = request\<lparr>CardStorageRequest.Sha1Hash := signature\<rparr>
              in (request,
                  transmitRequest lib encodeRequest client (CardStorage client) request)))"

definition EditCustomer ::
  "Library \<Rightarrow> TimeFormatter \<Rightarrow> Client \<Rightarrow> CardStorageRequest \<Rightarrow> CardStorageRequest \<times> Result run" where
  "EditCustomer lib now client request =
     (let request = request\<lparr>CardStorageRequest.Timestamp := formatTime now ''20060102150405''\<rparr>;
          request = request\<lparr>CardStorageRequest.MerchantID := Client.MerchantID client\<rparr>;
          request = request\<lparr>CardStorageRequest.Type := ''payer-edit''\<rparr>;
          request = request\<lparr>elementsToHash :=
            [CardStorageRequest.Timestamp request, CardStorageRequest.MerchantID request,
             CardStorageRequest.OrderID request, getAmount request, getCurrency request,
             CardStorageRequest.PayerRef request]\<rparr>;
          request = request\<lparr>sharedSecret := HashSecret client\<rparr>
      in case buildSignature request of
           Inl err \<Rightarrow> (request, Done (None, None, Some err))
         | Inr signature \<Rightarrow>
             (let request = request\<lparr>CardStorageRequest.Sha1Hash := signature\<rparr>
              in (request,
                  transmitRequest lib encodeRequest client (CardStorage client) request)))"

definition StoreCard ::
  "Library \<Rightarrow> TimeFormatter \<Rightarrow> Client \<Rightarrow> CardStorageRequest \<Rightarrow> CardStorageRequest \<times> Result run" where
  "StoreCard lib now client request =
     (let request = request\<lparr>CardStorageRequest.Timestamp := formatTime now ''20060102150405''\<rparr>;
          request = request\<lparr>CardStorageRequest.MerchantID := Client.MerchantID client\<rparr>;
          request = request\<lparr>CardStorageRequest.Type := ''card-new''\<rparr>;
          request = request\<lparr>elementsToHash :=
            [CardStorageRequest.Timestamp request, CardStorageRequest.MerchantID request,
             CardStorageRequest.OrderID request, getAmount request, getCurrency request,
             CardStorageRequest.PayerRef request, getCardHolderName request,
             getCardNumber request]\<rparr>;
          request = request\<lparr>sharedSecret := HashSecret client\<rparr>
      in case buildSignature request of
           Inl err \<Rightarrow> (request, Done (None, None, Some err))
         | Inr signature \<Rightarrow>
             (let request = request\<lparr>CardStorageRequest.Sha1Hash := signature\<rparr>
              in (request,
                  transmitRequest lib encodeRequest client (CardStorage client) request)))"

definition EditCard ::
  "Library \<Rightarrow> TimeFormatter \<Rightarrow> Client \<Rightarrow> CardStorageRequest \<Rightarrow> CardStorageRequest \<times> Result run" where
  "EditCard lib now client request =
     (let request = request\<lparr>CardStorageRequest.Timestamp := formatTime now ''20060102150405''\<rparr>;
          request = request\<lparr>CardStorageRequest.MerchantID := Client.MerchantID client\<rparr>;
          request = request\<lparr>CardStorageRequest.Type := ''card-update-card''\<rparr>;
          request = request\<lparr>elementsToHash :=
            [CardStorageRequest.Timestamp request, CardStorageRequest.MerchantID request,
             CardStorageRequest.PayerRef request, getCardRef request, getCardExpDate request,
             getCardNumber request]\<rparr>;
          request = request\<lparr>sharedSecret := HashSecret client\<rparr>
      in case buildSignature request of
           Inl err \<Rightarrow> (request, Done (None, None, Some err))
         | Inr signature \<Rightarrow>
             (let request = request\<lparr>CardStorageRequest.Sha1Hash := signature\<rparr>
              in (request,
                  transmitRequest lib encodeRequest client (CardStorage client) request)))"

definition DeleteCard ::
  "Library \<Rightarrow> TimeFormatter \<Rightarrow> Client \<Rightarrow> CardStorageRequest \<Rightarrow> CardStorageRequest \<times> Result run" where
  "DeleteCard lib now client request =
     (let request = request\<lparr>CardStorageRequest.Timestamp := formatTime now ''20060102150405''\<rparr>;
          request = request\<lparr>CardStorageRequest.MerchantID := Client.MerchantID client\<rparr>;
          request = request\<lparr>CardStorageRequest.Type := ''card-cancel-card''\<rparr>;
          request = request\<lparr>elementsToHash :=
            [CardStorageRequest.Timestamp request, CardStorageRequest.MerchantID request,
             CardStorageRequest.PayerRef request, getCardRef request]\<rparr>;
          request = request\<lparr>sharedSecret := HashSecret client\<rparr>
      in case buildSignature request of
           Inl err \<Rightarrow> (request, Done (None, None, Some err))
         | Inr signature \<Rightarrow>
             (let request = request\<lparr>CardStorageRequest.Sha1Hash := signature\<rparr>
              in (request,
                  transmitRequest lib encodeRequest client (CardStorage client) request)))"

text \<open>The interface \<^verbatim>\<open>CardStorageServiceAPI\<close>: the operation that the caller invokes.\<close>

datatype operation =
    OpAuthorize | OpValidate | OpCredit | OpCreateCustomer
  | OpEditCustomer | OpStoreCard | OpEditCard | OpDeleteCard

fun invoke ::
  "operation \<Rightarrow> Library \<Rightarrow> TimeFormatter \<Rightarrow> Client \<Rightarrow> CardStorageRequest
     \<Rightarrow> CardStorageRequest \<times> Result run" where
  "invoke OpAuthorize = Authorize"
| "invoke OpValidate = Validate"
| "invoke OpCredit = Credit"
| "invoke OpCreateCustomer = CreateCustomer"
| "invoke OpEditCustomer = EditCustomer"
| "invoke OpStoreCard = StoreCard"
| "invoke OpEditCard = EditCard"
| "invoke OpDeleteCard = DeleteCard"

definition operations :: "operation list" where
  "operations =
     [OpAuthorize, OpValidate, OpCredit, OpCreateCustomer,
      OpEditCustomer, OpStoreCard, OpEditCard, OpDeleteCard]"


subsection \<open>The table of the specification\<close>

text \<open>
  The table of elements to hash as the specification gives it: for each operation the
  ordered slots and the secret. A slot is read from the request as the specification's
  data model names it: the timestamp, the merchant id, the order id and the payer
  reference are fields of the common header, the amount and the currency are the Amount
  group, the card fields are the Card group, and a group that is absent gives the empty
  string.
\<close>

datatype slot =
    SlotTimestamp | SlotMerchantId | SlotOrderId | SlotAmount | SlotCurrency | SlotPayerRef
  | SlotCardHolderName | SlotCardNumber | SlotCardRef | SlotCardExpiry

datatype secret = OrdinarySecret | RebateSecret

fun spec_slots :: "operation \<Rightarrow> slot list" where
  "spec_slots OpAuthorize =
     [SlotTimestamp, SlotMerchantId, SlotOrderId, SlotAmount, SlotCurrency, SlotPayerRef]"
| "spec_slots OpValidate = [SlotTimestamp, SlotMerchantId, SlotOrderId, SlotPayerRef]"
| "spec_slots OpCredit =
     [SlotTimestamp, SlotMerchantId, SlotOrderId, SlotAmount, SlotCurrency, SlotPayerRef]"
| "spec_slots OpCreateCustomer =
     [SlotTimestamp, SlotMerchantId, SlotOrderId, SlotAmount, SlotCurrency, SlotPayerRef]"
| "spec_slots OpEditCustomer =
     [SlotTimestamp, SlotMerchantId, SlotOrderId, SlotAmount, SlotCurrency, SlotPayerRef]"
| "spec_slots OpStoreCard =
     [SlotTimestamp, SlotMerchantId, SlotOrderId, SlotAmount, SlotCurrency, SlotPayerRef,
      SlotCardHolderName, SlotCardNumber]"
| "spec_slots OpEditCard =
     [SlotTimestamp, SlotMerchantId, SlotPayerRef, SlotCardRef, SlotCardExpiry, SlotCardNumber]"
| "spec_slots OpDeleteCard = [SlotTimestamp, SlotMerchantId, SlotPayerRef, SlotCardRef]"

fun spec_secret :: "operation \<Rightarrow> secret" where
  "spec_secret OpCredit = RebateSecret"
| "spec_secret _ = OrdinarySecret"

fun secret_of :: "Client \<Rightarrow> secret \<Rightarrow> string" where
  "secret_of client OrdinarySecret = HashSecret client"
| "secret_of client RebateSecret = RebateHashSecret client"

fun spec_slot_value :: "CardStorageRequest \<Rightarrow> slot \<Rightarrow> string" where
  "spec_slot_value r SlotTimestamp = CardStorageRequest.Timestamp r"
| "spec_slot_value r SlotMerchantId = CardStorageRequest.MerchantID r"
| "spec_slot_value r SlotOrderId = CardStorageRequest.OrderID r"
| "spec_slot_value r SlotAmount =
     (case CardStorageRequest.Amount r of None \<Rightarrow> [] | Some a \<Rightarrow> Amount.Amount a)"
| "spec_slot_value r SlotCurrency =
     (case CardStorageRequest.Amount r of None \<Rightarrow> [] | Some a \<Rightarrow> Currency a)"
| "spec_slot_value r SlotPayerRef = CardStorageRequest.PayerRef r"
| "spec_slot_value r SlotCardHolderName =
     (case Card r of None \<Rightarrow> [] | Some c \<Rightarrow> CardHolderName c)"
| "spec_slot_value r SlotCardNumber = (case Card r of None \<Rightarrow> [] | Some c \<Rightarrow> Card.Number c)"
| "spec_slot_value r SlotCardRef = (case Card r of None \<Rightarrow> [] | Some c \<Rightarrow> Card.Ref c)"
| "spec_slot_value r SlotCardExpiry = (case Card r of None \<Rightarrow> [] | Some c \<Rightarrow> ExpDate c)"

definition spec_elements :: "operation \<Rightarrow> CardStorageRequest \<Rightarrow> string list" where
  "spec_elements op r = map (spec_slot_value r) (spec_slots op)"

text \<open>
  The same table with the one slot read as the code reads it: the payer reference that
  CreateCustomer signs is the \<open>ref\<close> attribute of the nested Payer group, empty when the
  group is absent.
\<close>

definition signed_slot_value :: "operation \<Rightarrow> CardStorageRequest \<Rightarrow> slot \<Rightarrow> string" where
  "signed_slot_value op r s =
     (if op = OpCreateCustomer \<and> s = SlotPayerRef
      then (case Payer r of None \<Rightarrow> [] | Some p \<Rightarrow> Payer.Ref p)
      else spec_slot_value r s)"

definition signed_elements :: "operation \<Rightarrow> CardStorageRequest \<Rightarrow> string list" where
  "signed_elements op r = map (signed_slot_value op r) (spec_slots op)"

text \<open>A request with its absent groups replaced by groups whose fields are all empty.\<close>

definition emptyAmount :: Amount where
  "emptyAmount = \<lparr> Amount.Amount = [], Currency = [] \<rparr>"

definition emptyPayer :: Payer where
  "emptyPayer =
     \<lparr> Payer.Ref = [], PayerType = [], Title = [], FirstName = [], Surname = [], Company = [],
       Email = [], DateOfBirth = [], State = [], PassPhrase = [], VatNumber = [],
       VariableReference = [], CustomerNumber = [], Address = None, PhoneNumbers = None \<rparr>"

definition emptyCard :: Card where
  "emptyCard =
     \<lparr> Card.Ref = [], Card.PayerRef = [], Card.Number = [], ExpDate = [],
       CardHolderName = [], Card.Type = [] \<rparr>"

definition withEmptyGroups :: "CardStorageRequest \<Rightarrow> CardStorageRequest" where
  "withEmptyGroups r =
     r\<lparr> CardStorageRequest.Amount :=
          Some (case CardStorageRequest.Amount r of None \<Rightarrow> emptyAmount | Some a \<Rightarrow> a),
        Payer := Some (case Payer r of None \<Rightarrow> emptyPayer | Some p \<Rightarrow> p),
        Card := Some (case Card r of None \<Rightarrow> emptyCard | Some c \<Rightarrow> c) \<rparr>"


section \<open>Values of the repository's tests\<close>

text \<open>
  The fixtures of the tests: a library whose decoder knows two response bodies, an HTTP
  client that answers every request with the first of them and one that answers with
  the second, the fixed clock, and the request of the Authorize test.
\<close>

definition validResponse :: ServiceResponse where
  "validResponse =
     \<lparr> elementsToHash = [], sharedSecret = [],
       ServiceResponse.Timestamp = ''20180731090859'',
       ServiceResponse.MerchantID = ''MerchantId'', ServiceResponse.Account = ''internet'',
       ServiceResponse.OrderID = ''OL0f0VYFQTyNG5IulhsMrg'', AuthCode = [], Result = ''00'', CVNResult = [],
       AVSPostcodeResponse = [], AVSAddressResponse = [], BatchId = [],
       Message = ''Successful'', PasRef = ''415d5e0f6ad247d3825284d1484bd7e9'',
       TimeTaken = ''1'', AuthTimeTaken = [], CardIssuer = None,
       ServiceResponse.Sha1Hash = ''81c50b9b32a5433deab0c588c0ef89d7e86b757b'' \<rparr>"

definition invalidResponse :: ServiceResponse where
  "invalidResponse = validResponse\<lparr>ServiceResponse.Sha1Hash := ''INVALIDHASH''\<rparr>"

definition testLibrary :: Library where
  "testLibrary =
     \<lparr> url_Parse = (\<lambda>base ref.
         case base of
           None \<Rightarrow> Panic NilPointerDereference
         | Some u \<Rightarrow> Done (Inr (u\<lparr>URL.Path := ref\<rparr>))),
       http_NewRequest = (\<lambda>method u body.
         Inr \<lparr> Method = method, URL = u, ContentType = [], HTTPRequest.Body = body \<rparr>),
       xml_Decode = (\<lambda>body.
         if body = ''valid'' then Inr validResponse
         else if body = ''invalid'' then Inr invalidResponse
         else Inl (DecodeError body)) \<rparr>"

definition validServer :: "HTTPRequest \<Rightarrow> error + HTTPResponse" where
  "validServer req = Inr \<lparr> StatusCode = 200, HTTPResponse.Body = ''valid'', Request = req \<rparr>"

definition invalidServer :: "HTTPRequest \<Rightarrow> error + HTTPResponse" where
  "invalidServer req = Inr \<lparr> StatusCode = 200, HTTPResponse.Body = ''invalid'', Request = req \<rparr>"

definition testURL :: URL where
  "testURL = \<lparr> Scheme = ''http'', Host = ''127.0.0.1'', URL.Path = [] \<rparr>"

definition testClient :: "(HTTPRequest \<Rightarrow> error + HTTPResponse) \<Rightarrow> Client" where
  "testClient server = defaultClient server testURL"

definition testNow :: TimeFormatter where
  "testNow =
     Time_Format (\<lambda>t layout. layout)
       \<lparr> Year = 2018, Month = 6, Day = 14, Hour = 9, Minute = 50, Second = 0 \<rparr>"

definition authRequest :: CardStorageRequest where
  "authRequest =
     \<lparr> elementsToHash = [], sharedSecret = [],
       CardStorageRequest.Type = [], CardStorageRequest.Timestamp = [],
       CardStorageRequest.MerchantID = [], CardStorageRequest.Account = ''internet'',
       Channel = ''ECOM'', CardStorageRequest.OrderID = ''AiCibJ5UR7utURy_slxhJw'',
       CardStorageRequest.PayerRef = ''03e28f0e-492e-80bd-20ec318e9334'',
       PaymentMethod = ''3c4af936-483e-a393-f558bec2fb2a'', CardStorageRequest.Sha1Hash = [],
       CardStorageRequest.Amount = Some \<lparr> Amount.Amount = ''10000'', Currency = ''CAD'' \<rparr>,
       AutoSettle = Some \<lparr> Flag = ''1'' \<rparr>,
       PaymentData = Some \<lparr> CVN = \<lparr> CVN.Number = ''123'' \<rparr> \<rparr>,
       Payer = None, Card = None \<rparr>"

text \<open>The same request without its Amount group, and with a Payer group added.\<close>

definition noAmountRequest :: CardStorageRequest where
  "noAmountRequest = authRequest\<lparr>CardStorageRequest.Amount := None\<rparr>"

definition payerRequest :: CardStorageRequest where
  "payerRequest = authRequest\<lparr>Payer := Some (emptyPayer\<lparr>Payer.Ref := ''payer-of-the-group''\<rparr>)\<rparr>"


text \<open>Options as the tests pass them to \<^verbatim>\<open>NewClient\<close>.\<close>

definition withBaseURL :: "URL \<Rightarrow> Client \<Rightarrow> Client" where
  "withBaseURL u client = client\<lparr>BaseURL := Some u\<rparr>"

definition withHashSecret :: "string \<Rightarrow> Client \<Rightarrow> Client" where
  "withHashSecret s client = client\<lparr>HashSecret := s\<rparr>"

definition withRebateHashSecret :: "string \<Rightarrow> Client \<Rightarrow> Client" where
  "withRebateHashSecret s client = client\<lparr>RebateHashSecret := s\<rparr>"


text \<open>
  The mock of the test of \<^verbatim>\<open>hashAndEncode\<close>, whose state is the bytes last written, and
  a \<^verbatim>\<open>Marshaller\<close> whose \<^verbatim>\<open>Write\<close> fails.
\<close>

definition MockMarshaller :: "byte list Marshaller" where
  "MockMarshaller =
     \<lparr> state = [], Write = (\<lambda>s p. (p, 1, None)), Sum = (\<lambda>s b. ''Hello'') \<rparr>"

definition failingMarshaller :: "byte list Marshaller" where
  "failingMarshaller =
     \<lparr> state = [], Write = (\<lambda>s p. (s, 0, Some (WriteError ''short write''))),
       Sum = (\<lambda>s b. b @ s) \<rparr>"


section \<open>Evaluating the hash\<close>

lemma schedule_unfold:
  "schedule (numeral k) w =
     schedule (pred_numeral k) (RotateLeft32 (w ! 2 XOR w ! 7 XOR w ! 13 XOR w ! 15) 1 # w)"
  by (simp add: numeral_eq_Suc)

lemma blocks_unfold:
  "blocks (numeral k) h p = blocks (pred_numeral k) (block h (take 64 p)) (drop 64 p)"
  by (simp add: numeral_eq_Suc)

lemma replicate_unfold: "replicate (numeral k) x = x # replicate (pred_numeral k) x"
  by (simp add: numeral_eq_Suc)

lemmas sha1_eval =
  sha1_checkSum_def padding_def putUint64_def putUint32_def replicate_unfold char_of_def bit_0
  block_def init_def schedule_unfold blocks_unfold add32_def RotateLeft32_def hextable_def

text \<open>The test vectors of the standard, of zero, one and two blocks.\<close>

lemma sha1_test_vectors:
  "EncodeToString (sha1_checkSum []) = ''da39a3ee5e6b4b0d3255bfef95601890afd80709''"
  "EncodeToString (sha1_checkSum ''abc'') = ''a9993e364706816aba3e25717850c26c9cd0d89d''"
  "EncodeToString (sha1_checkSum ''abcdbcdecdefdefgefghfghighijhijkijkljklmklmnlmnomnopnopq'')
     = ''84983e441c3bd26ebaae4aa1f95129e5e54670f1''"
  by (simp_all add: sha1_eval)

section \<open>Properties of the signature engine\<close>

text \<open>The test of \<^verbatim>\<open>hashAndEncode\<close>, and the error of a failing \<^verbatim>\<open>Write\<close> handed on.\<close>

lemma hashAndEncode_mock:
  "hashAndEncode a MockMarshaller ''hello world'' = Inr ''48656c6c6f''"
  "hashAndEncode a failingMarshaller str = Inl (WriteError ''short write'')"
  by (simp_all add: hashAndEncode_def WriteString_def MockMarshaller_def failingMarshaller_def
      hextable_def)

lemma length_putUint32: "length (putUint32 v) = 4"
  by (simp add: putUint32_def)

lemma length_digest_bytes: "length (digest_bytes h) = 20"
  by (cases h) (simp add: length_putUint32)

lemma length_sha1_checkSum: "length (sha1_checkSum msg) = 20"
  by (simp add: sha1_checkSum_def Let_def length_digest_bytes)

lemma length_EncodeToString: "length (EncodeToString src) = 2 * length src"
  by (induction src) simp_all

lemma hextable_nth:
  assumes "k < 16"
  shows "is_lower_hex (hextable ! k)"
proof -
  have "length hextable = 16" by (simp add: hextable_def)
  with assms have "hextable ! k \<in> set hextable" by (simp only: nth_mem)
  then show ?thesis by (simp only: is_lower_hex_def hextable_def)
qed

lemma EncodeToString_hex: "list_all is_lower_hex (EncodeToString src)"
proof (induction src)
  case Nil
  show ?case by simp
next
  case (Cons v src)
  have "(of_char v :: nat) < 256" by simp
  then have "(of_char v :: nat) div 16 < 16" by (intro less_mult_imp_div_less) simp
  moreover have "(of_char v :: nat) mod 16 < 16" by simp
  ultimately show ?case using Cons by (simp add: hextable_nth)
qed

lemma hashAndEncode_sha1:
  "hashAndEncode a sha1_New str = Inr (EncodeToString (sha1_checkSum str))"
  by (simp add: hashAndEncode_def WriteString_def sha1_New_def)

lemma buildSignature_eq:
  "buildSignature a = Inr (computeChainedSignature (elementsToHash a) (sharedSecret a))"
  by (simp add: buildSignature_def hashAndEncode_sha1 computeChainedSignature_def)

lemma length_computeChainedSignature: "length (computeChainedSignature es s) = 40"
  by (simp add: computeChainedSignature_def length_EncodeToString length_sha1_checkSum)

text \<open>
  C1. For every list of elements, the empty list included, and every secret,
  \<^verbatim>\<open>buildSignature\<close> returns without error the hex encoding of the SHA-1 of the hex
  encoding of the SHA-1 of the elements joined by dots, followed by a dot and the secret:
  forty characters, each a lowercase hexadecimal digit. The empty list joins to the empty
  string.
\<close>

theorem buildSignature_chained:
  "buildSignature a =
     Inr (EncodeToString (sha1_checkSum
            (EncodeToString (sha1_checkSum (Join (elementsToHash a) ''.''))
               @ ''.'' @ sharedSecret a)))
   \<and> buildSignature a = Inr (computeChainedSignature (elementsToHash a) (sharedSecret a))
   \<and> length (computeChainedSignature (elementsToHash a) (sharedSecret a)) = 40
   \<and> list_all is_lower_hex (computeChainedSignature (elementsToHash a) (sharedSecret a))
   \<and> Join [] ''.'' = []"
  by (simp add: buildSignature_eq length_computeChainedSignature)
     (simp add: computeChainedSignature_def EncodeToString_hex)

text \<open>
  C6. The elements \<open>elem1\<close> and \<open>elem2\<close> with the secret \<open>test\<close> give the signature
  \<open>dbd4aebd6ead0f3c2e56017aef55135c4efd3aba\<close>, as the repository's test expects.
\<close>

theorem buildSignature_known_vector:
  "buildSignature \<lparr> elementsToHash = [''elem1'', ''elem2''], sharedSecret = ''test'' \<rparr>
     = Inr ''dbd4aebd6ead0f3c2e56017aef55135c4efd3aba''"
proof -
  have first: "EncodeToString (sha1_checkSum ''elem1.elem2'')
      = ''b4f9beaf45350632bb53d8822dfee167bb3f65af''"
    by (simp add: sha1_eval)
  have second: "EncodeToString (sha1_checkSum ''b4f9beaf45350632bb53d8822dfee167bb3f65af.test'')
      = ''dbd4aebd6ead0f3c2e56017aef55135c4efd3aba''"
    by (simp add: sha1_eval)
  show ?thesis
    by (simp add: buildSignature_def hashAndEncode_sha1 first second)
qed

text \<open>
  C9. The signature is a function of the elements and the secret alone: two signing
  contexts with the same elements and the same secret, whatever structs embed them and
  whatever the other fields hold, get the same signature. Every call hashes with a fresh
  \<^verbatim>\<open>sha1.New()\<close>, and the result carries no state from one call to the next.
\<close>

theorem buildSignature_deterministic:
  fixes a :: "'a serviceAuthenticator_scheme" and b :: "'b serviceAuthenticator_scheme"
  assumes "elementsToHash a = elementsToHash b" and "sharedSecret a = sharedSecret b"
  shows "buildSignature a = buildSignature b"
  using assms by (simp add: buildSignature_def hashAndEncode_sha1)

theorem buildSignature_deterministic_witness:
  "buildSignature (authRequest\<lparr>elementsToHash := [''elem1'', ''elem2''], sharedSecret := ''test''\<rparr>)
     = buildSignature (validResponse\<lparr>elementsToHash := [''elem1'', ''elem2''], sharedSecret := ''test''\<rparr>)"
  using buildSignature_deterministic
    [of "authRequest\<lparr>elementsToHash := [''elem1'', ''elem2''], sharedSecret := ''test''\<rparr>"
        "validResponse\<lparr>elementsToHash := [''elem1'', ''elem2''], sharedSecret := ''test''\<rparr>"]
  by simp

section \<open>Properties of the operations\<close>

lemmas operation_defs =
  Authorize_def Validate_def Credit_def CreateCustomer_def EditCustomer_def StoreCard_def
  EditCard_def DeleteCard_def

lemma marshalRequest_signing_context:
  "marshalRequest (r\<lparr>elementsToHash := es, sharedSecret := s\<rparr>) = marshalRequest r"
  by (simp add: marshalRequest_def)

lemma invoke_frame:
  "fst (invoke op lib now client request) =
     request\<lparr> CardStorageRequest.Type := CardStorageRequest.Type (fst (invoke op lib now client request)),
              CardStorageRequest.Timestamp := CardStorageRequest.Timestamp (fst (invoke op lib now client request)),
              CardStorageRequest.MerchantID := CardStorageRequest.MerchantID (fst (invoke op lib now client request)),
              CardStorageRequest.Sha1Hash := CardStorageRequest.Sha1Hash (fst (invoke op lib now client request)),
              elementsToHash := elementsToHash (fst (invoke op lib now client request)),
              sharedSecret := sharedSecret (fst (invoke op lib now client request)) \<rparr>"
  by (cases op) (simp_all add: operation_defs Let_def buildSignature_eq split: option.split)

lemma invoke_stamps:
  "CardStorageRequest.Timestamp (fst (invoke op lib now client request))
     = formatTime now ''20060102150405''"
  "CardStorageRequest.MerchantID (fst (invoke op lib now client request))
     = Client.MerchantID client"
  by (cases op; simp add: operation_defs Let_def buildSignature_eq split: option.split)+

lemma invoke_types:
  "map (\<lambda>op. CardStorageRequest.Type (fst (invoke op lib now client request))) operations =
     [''receipt-in'', ''receipt-in-otb'', ''payment-out'', ''payer-new'', ''payer-edit'',
      ''card-new'', ''card-update-card'', ''card-cancel-card'']"
  by (simp add: operations_def operation_defs Let_def buildSignature_eq split: option.split)

lemma Authorize_panics_iff:
  "snd (Authorize lib now client request) = Panic NilPointerDereference
     \<longleftrightarrow> CardStorageRequest.Amount request = None
         \<or> transmitRequest lib encodeRequest client (CardStorage client)
              (fst (Authorize lib now client request)) = Panic NilPointerDereference"
  by (simp add: Authorize_def Let_def buildSignature_eq split: option.split)

lemmas getter_defs =
  getAmount_def getCurrency_def getPayerRef_def getCardHolderName_def getCardNumber_def
  getCardRef_def getCardExpDate_def

text \<open>
  C2, as amended. For each of the eight operations and every request (for Authorize:
  every request that has an Amount group), the list that is signed is the list of the
  table of the specification, where the payer reference is the field of the common
  header for every operation except CreateCustomer, whose sixth element is the \<open>ref\<close>
  attribute of the nested Payer group, empty when the group is absent; the secret is the
  rebate secret for Credit and the ordinary secret for the other seven.
\<close>

theorem signed_elements_table:
  assumes "op = OpAuthorize \<Longrightarrow> CardStorageRequest.Amount request \<noteq> None"
  shows "elementsToHash (fst (invoke op lib now client request))
           = signed_elements op (fst (invoke op lib now client request))
         \<and> sharedSecret (fst (invoke op lib now client request))
           = secret_of client (spec_secret op)"
  using assms
  by (cases op;
      auto simp add: operation_defs Let_def buildSignature_eq signed_elements_def
        signed_slot_value_def getter_defs
      split: option.split)

theorem signed_elements_table_witness:
  "elementsToHash (fst (invoke OpAuthorize testLibrary testNow (testClient validServer) authRequest))
     = signed_elements OpAuthorize
         (fst (invoke OpAuthorize testLibrary testNow (testClient validServer) authRequest))
   \<and> sharedSecret (fst (invoke OpAuthorize testLibrary testNow (testClient validServer) authRequest))
     = ''Po8lRRT67a''"
  using signed_elements_table
    [of OpAuthorize authRequest testLibrary testNow "testClient validServer"]
  by (simp add: authRequest_def testClient_def defaultClient_def DefaultHashSecret_def)

text \<open>
  C2 as it is stated fails for CreateCustomer. On a request whose header payer
  reference and Payer group differ, CreateCustomer signs the \<open>ref\<close> of the group where
  the table names the payer reference, and so signs another list than EditCustomer does
  on the same request, although the table gives both operations the same row.
\<close>

theorem signed_elements_table_counterexample:
  "elementsToHash (fst (invoke OpCreateCustomer testLibrary testNow (testClient validServer) payerRequest))
     \<noteq> spec_elements OpCreateCustomer
         (fst (invoke OpCreateCustomer testLibrary testNow (testClient validServer) payerRequest))
   \<and> spec_slots OpCreateCustomer = spec_slots OpEditCustomer
   \<and> spec_secret OpCreateCustomer = spec_secret OpEditCustomer
   \<and> elementsToHash (fst (invoke OpCreateCustomer testLibrary testNow (testClient validServer) payerRequest))
     \<noteq> elementsToHash (fst (invoke OpEditCustomer testLibrary testNow (testClient validServer) payerRequest))"
  by (simp add: operation_defs Let_def buildSignature_eq spec_elements_def getter_defs
      payerRequest_def authRequest_def emptyPayer_def)

text \<open>
  C4. A request without an Amount group makes Authorize panic on the nil pointer, after
  it has stamped the request and before it has signed anything, where Credit, which reads
  the same slots through the getters, signs empty strings for the amount and the
  currency.
\<close>

theorem Authorize_without_Amount:
  "snd (invoke OpAuthorize testLibrary testNow (testClient validServer) noAmountRequest)
     = Panic NilPointerDereference
   \<and> elementsToHash (fst (invoke OpAuthorize testLibrary testNow (testClient validServer) noAmountRequest))
     = []
   \<and> take 4 (drop 2
        (elementsToHash (fst (invoke OpCredit testLibrary testNow (testClient validServer) noAmountRequest))))
     = [''AiCibJ5UR7utURy_slxhJw'', [], [], ''03e28f0e-492e-80bd-20ec318e9334'']"
  by (simp add: operation_defs Let_def buildSignature_eq getter_defs
      noAmountRequest_def authRequest_def)

text \<open>
  The seven operations that read the optional groups through the getters sign the same
  list, and so produce the same signature, whether a group is absent or present with
  empty fields.
\<close>

lemma absent_group_is_empty_group:
  assumes "op \<noteq> OpAuthorize"
  shows "elementsToHash (fst (invoke op lib now client (withEmptyGroups request)))
           = elementsToHash (fst (invoke op lib now client request))"
    and "CardStorageRequest.Sha1Hash (fst (invoke op lib now client (withEmptyGroups request)))
           = CardStorageRequest.Sha1Hash (fst (invoke op lib now client request))"
  using assms
  by (cases op;
      simp add: operation_defs Let_def buildSignature_eq getter_defs withEmptyGroups_def
        emptyAmount_def emptyPayer_def emptyCard_def
      split: option.split)+

section \<open>The timestamp\<close>

lemma digit_nth:
  assumes "k < 10"
  shows "is_digit (''0123456789'' ! k)"
proof -
  have "k < length ''0123456789''" using assms by simp
  then have "''0123456789'' ! k \<in> set ''0123456789''" by (rule nth_mem)
  then show ?thesis by (simp only: is_digit_def)
qed

lemma digitsOf_digits: "list_all is_digit (digitsOf n)"
proof (induction n rule: digitsOf.induct)
  case (1 n)
  show ?case
  proof (cases "n < 10")
    case True
    then show ?thesis by (subst digitsOf.simps) (simp add: digit_nth)
  next
    case False
    have "n mod 10 < 10" by simp
    with False 1 show ?thesis by (subst digitsOf.simps) (simp add: digit_nth)
  qed
qed

lemma length_digitsOf:
  assumes "n < 10 ^ k" and "0 < k"
  shows "length (digitsOf n) \<le> k"
  using assms
proof (induction n arbitrary: k rule: digitsOf.induct)
  case (1 n)
  show ?case
  proof (cases "n < 10")
    case True
    with 1(3) show ?thesis by (subst digitsOf.simps) simp
  next
    case False
    obtain j where k: "k = Suc j" using 1(3) by (cases k) auto
    have j: "0 < j"
    proof (rule ccontr)
      assume "\<not> 0 < j"
      with k 1(2) False show False by simp
    qed
    have "n div 10 < 10 ^ j" using 1(2) k by (simp add: less_mult_imp_div_less mult.commute)
    with 1(1) [OF False _ j] have "length (digitsOf (n div 10)) \<le> j" by simp
    with False k show ?thesis by (subst digitsOf.simps) simp
  qed
qed

lemma length_appendInt:
  assumes "0 \<le> x" and "x < 10 ^ w" and "0 < w"
  shows "length (appendInt x w) = w"
proof -
  have "nat \<bar>x\<bar> < 10 ^ w" using assms(1,2) by (simp add: nat_less_iff)
  then have "length (digitsOf (nat \<bar>x\<bar>)) \<le> w" using assms(3) by (rule length_digitsOf)
  then show ?thesis using assms(1) by (simp add: appendInt_def)
qed

lemma appendInt_digits:
  assumes "0 \<le> x"
  shows "list_all is_digit (appendInt x w)"
proof -
  have zero: "is_digit CHR ''0''" by (simp add: is_digit_def)
  have "\<forall>c \<in> set (digitsOf (nat \<bar>x\<bar>)). is_digit c"
    using digitsOf_digits [of "nat \<bar>x\<bar>"] by (simp add: list_all_iff)
  then show ?thesis using assms zero by (auto simp add: appendInt_def list_all_iff)
qed

lemma Time_Format_compact:
  assumes "0 \<le> Year t" and "Year t \<le> 9999" and "Month t \<le> 12" and "Day t \<le> 31"
    and "Hour t \<le> 23" and "Minute t \<le> 59" and "Second t \<le> 59"
  shows "length (formatTime (Time_Format other t) ''20060102150405'') = 14"
    and "list_all is_digit (formatTime (Time_Format other t) ''20060102150405'')"
proof -
  have "Year t < 10 ^ 4" "int (Month t) < 10 ^ 2" "int (Day t) < 10 ^ 2"
    "int (Hour t) < 10 ^ 2" "int (Minute t) < 10 ^ 2" "int (Second t) < 10 ^ 2"
    using assms(2-7) by simp_all
  then show "length (formatTime (Time_Format other t) ''20060102150405'') = 14"
    using assms(1) by (simp add: formatTime_def Time_Format_def length_appendInt)
  show "list_all is_digit (formatTime (Time_Format other t) ''20060102150405'')"
    using assms(1) by (simp add: formatTime_def Time_Format_def appendInt_digits)
qed

text \<open>
  C7. Each of the eight operations sets the type of the request to its own code, the
  eight codes being pairwise distinct and the code of Credit being \<open>payment-out\<close>; sets
  the timestamp to the current time of the time source in the layout \<open>20060102150405\<close>;
  and sets the merchant id to the one of the client. When the operation goes on to sign
  (Authorize: when the request has an Amount group), the first two elements that are
  hashed are the timestamp and the merchant id just set. For a time of the library
  whose year has at most four digits, the timestamp is a string of fourteen digits.
\<close>

theorem operation_stamps:
  "map (\<lambda>op. CardStorageRequest.Type (fst (invoke op lib now client request))) operations =
     [''receipt-in'', ''receipt-in-otb'', ''payment-out'', ''payer-new'', ''payer-edit'',
      ''card-new'', ''card-update-card'', ''card-cancel-card'']
   \<and> distinct (map (\<lambda>op. CardStorageRequest.Type (fst (invoke op lib now client request)))
         operations)
   \<and> CardStorageRequest.Type (fst (invoke OpCredit lib now client request)) = ''payment-out''
   \<and> CardStorageRequest.Timestamp (fst (invoke op lib now client request))
       = Format now ''20060102150405''
   \<and> CardStorageRequest.MerchantID (fst (invoke op lib now client request))
       = Client.MerchantID client
   \<and> ((op = OpAuthorize \<longrightarrow> CardStorageRequest.Amount request \<noteq> None) \<longrightarrow>
        take 2 (elementsToHash (fst (invoke op lib now client request)))
          = [Format now ''20060102150405'', Client.MerchantID client])
   \<and> (0 \<le> Year t \<and> Year t \<le> 9999 \<and> Month t \<le> 12 \<and> Day t \<le> 31 \<and> Hour t \<le> 23
          \<and> Minute t \<le> 59 \<and> Second t \<le> 59 \<longrightarrow>
        length (CardStorageRequest.Timestamp
                  (fst (invoke op lib (Time_Format other t) client request))) = 14
        \<and> list_all is_digit (CardStorageRequest.Timestamp
                  (fst (invoke op lib (Time_Format other t) client request))))"
proof -
  have types: "map (\<lambda>op. CardStorageRequest.Type (fst (invoke op lib now client request)))
      operations =
     [''receipt-in'', ''receipt-in-otb'', ''payment-out'', ''payer-new'', ''payer-edit'',
      ''card-new'', ''card-update-card'', ''card-cancel-card'']"
    by (rule invoke_types)
  have credit: "CardStorageRequest.Type (fst (invoke OpCredit lib now client request))
      = ''payment-out''"
    by (simp add: Credit_def Let_def buildSignature_eq)
  have signed: "take 2 (elementsToHash (fst (invoke op lib now client request)))
      = [Format now ''20060102150405'', Client.MerchantID client]"
    if "op = OpAuthorize \<longrightarrow> CardStorageRequest.Amount request \<noteq> None"
    using that
    by (cases op;
        auto simp add: operation_defs Let_def buildSignature_eq formatTime_def
          split: option.split)
  show ?thesis
    unfolding types
    using credit signed Time_Format_compact [of t other]
    by (simp add: invoke_stamps formatTime_def)
qed

theorem operation_stamps_witness:
  "CardStorageRequest.Timestamp
       (fst (invoke OpAuthorize testLibrary testNow (testClient validServer) authRequest))
     = ''20180614095000''
   \<and> length (CardStorageRequest.Timestamp
       (fst (invoke OpAuthorize testLibrary testNow (testClient validServer) authRequest))) = 14
   \<and> take 2 (elementsToHash
       (fst (invoke OpAuthorize testLibrary testNow (testClient validServer) authRequest)))
     = [''20180614095000'', ''realexsandbox'']"
proof -
  have now: "Format testNow ''20060102150405'' = ''20180614095000''"
    by (simp add: testNow_def Time_Format_def appendInt_def digitsOf.simps)
  have amount: "CardStorageRequest.Amount authRequest \<noteq> None"
    by (simp add: authRequest_def)
  show ?thesis
    using operation_stamps
      [of testLibrary testNow "testClient validServer" authRequest OpAuthorize
          "\<lparr> Year = 2018, Month = 6, Day = 14, Hour = 9, Minute = 50, Second = 0 \<rparr>"
          "\<lambda>t layout. layout"]
      now amount
    by (simp add: testNow_def [symmetric] testClient_def defaultClient_def
        DefaultMerchantID_def)
qed

text \<open>
  C10. An operation leaves the request it was given changed in the type, the timestamp,
  the merchant id, the signature and the two fields of the signing context, and in
  nothing else: the account, the channel, the order id, the payer reference, the payment
  method, and the Amount, AutoSettle, PaymentData, Payer and Card groups are as the
  caller set them. The wire document of a request does not depend on its signing
  context.
\<close>

theorem operation_frame:
  "fst (invoke op lib now client request) =
     request\<lparr> CardStorageRequest.Type := CardStorageRequest.Type (fst (invoke op lib now client request)),
              CardStorageRequest.Timestamp := CardStorageRequest.Timestamp (fst (invoke op lib now client request)),
              CardStorageRequest.MerchantID := CardStorageRequest.MerchantID (fst (invoke op lib now client request)),
              CardStorageRequest.Sha1Hash := CardStorageRequest.Sha1Hash (fst (invoke op lib now client request)),
              elementsToHash := elementsToHash (fst (invoke op lib now client request)),
              sharedSecret := sharedSecret (fst (invoke op lib now client request)) \<rparr>
   \<and> CardStorageRequest.Account (fst (invoke op lib now client request))
       = CardStorageRequest.Account request
   \<and> Channel (fst (invoke op lib now client request)) = Channel request
   \<and> CardStorageRequest.OrderID (fst (invoke op lib now client request))
       = CardStorageRequest.OrderID request
   \<and> CardStorageRequest.PayerRef (fst (invoke op lib now client request))
       = CardStorageRequest.PayerRef request
   \<and> PaymentMethod (fst (invoke op lib now client request)) = PaymentMethod request
   \<and> CardStorageRequest.Amount (fst (invoke op lib now client request))
       = CardStorageRequest.Amount request
   \<and> AutoSettle (fst (invoke op lib now client request)) = AutoSettle request
   \<and> PaymentData (fst (invoke op lib now client request)) = PaymentData request
   \<and> Payer (fst (invoke op lib now client request)) = Payer request
   \<and> Card (fst (invoke op lib now client request)) = Card request
   \<and> marshalRequest (r\<lparr>elementsToHash := es, sharedSecret := s\<rparr>) = marshalRequest r"
proof -
  have frame: "fst (invoke op lib now client request) =
     request\<lparr> CardStorageRequest.Type := CardStorageRequest.Type (fst (invoke op lib now client request)),
              CardStorageRequest.Timestamp := CardStorageRequest.Timestamp (fst (invoke op lib now client request)),
              CardStorageRequest.MerchantID := CardStorageRequest.MerchantID (fst (invoke op lib now client request)),
              CardStorageRequest.Sha1Hash := CardStorageRequest.Sha1Hash (fst (invoke op lib now client request)),
              elementsToHash := elementsToHash (fst (invoke op lib now client request)),
              sharedSecret := sharedSecret (fst (invoke op lib now client request)) \<rparr>"
    by (rule invoke_frame)
  have fields:
    "CardStorageRequest.Account (fst (invoke op lib now client request))
       = CardStorageRequest.Account request"
    "Channel (fst (invoke op lib now client request)) = Channel request"
    "CardStorageRequest.OrderID (fst (invoke op lib now client request))
       = CardStorageRequest.OrderID request"
    "CardStorageRequest.PayerRef (fst (invoke op lib now client request))
       = CardStorageRequest.PayerRef request"
    "PaymentMethod (fst (invoke op lib now client request)) = PaymentMethod request"
    "CardStorageRequest.Amount (fst (invoke op lib now client request))
       = CardStorageRequest.Amount request"
    "AutoSettle (fst (invoke op lib now client request)) = AutoSettle request"
    "PaymentData (fst (invoke op lib now client request)) = PaymentData request"
    "Payer (fst (invoke op lib now client request)) = Payer request"
    "Card (fst (invoke op lib now client request)) = Card request"
    by (subst frame, simp)+
  from frame fields show ?thesis
    by (simp only: marshalRequest_signing_context simp_thms)
qed

section \<open>Construction of the client\<close>

lemma HasSuffix_slash: "HasSuffix s ''/'' \<longleftrightarrow> s \<noteq> [] \<and> last s = CHR ''/''"
proof (cases "s = []")
  case True
  then show ?thesis by (simp add: HasSuffix_def)
next
  case False
  then have "s = butlast s @ [last s]" by simp
  then have "drop (length s - 1) s = [last s]"
    by (metis append_eq_conv_conj length_butlast)
  with False show ?thesis by (auto simp add: HasSuffix_def Suc_le_eq)
qed

lemma applyOptions_append:
  "applyOptions (xs @ ys) client = applyOptions ys (applyOptions xs client)"
  by (induction xs arbitrary: client) simp_all

lemma NewClient_nil_BaseURL:
  assumes "BaseURL (applyOptions options
      (defaultClient httpClient
         \<lparr> Scheme = ''https'', Host = ''test.realexpayments.com'', URL.Path = [] \<rparr>)) = None"
  shows "NewClient httpClient options = Panic NilPointerDereference"
  using assms by (simp add: NewClient_def url_Parse_DefaultBaseURL_def)

text \<open>
  C8. \<^verbatim>\<open>NewClient\<close> makes the default client, applies the options to it in the order
  given, each to the result of the ones before, and then looks at the base URL that
  results: it returns an error and no client exactly when the path of that URL ends in
  a slash, and otherwise the client with the options applied. Without options the
  defaults are returned.
\<close>

theorem NewClient_validates:
  assumes "BaseURL (applyOptions options
      (defaultClient httpClient
         \<lparr> Scheme = ''https'', Host = ''test.realexpayments.com'', URL.Path = [] \<rparr>)) = Some u"
  shows "((\<exists>err. NewClient httpClient options = Done (Inl err))
            \<longleftrightarrow> URL.Path u \<noteq> [] \<and> last (URL.Path u) = CHR ''/'')
       \<and> (HasSuffix (URL.Path u) ''/'' \<longrightarrow>
            NewClient httpClient options = Done (Inl (TrailingSlash u)))
       \<and> (\<not> HasSuffix (URL.Path u) ''/'' \<longrightarrow>
            NewClient httpClient options =
              Done (Inr (applyOptions options
                (defaultClient httpClient
                   \<lparr> Scheme = ''https'', Host = ''test.realexpayments.com'', URL.Path = [] \<rparr>))))
       \<and> NewClient httpClient [] =
            Done (Inr (defaultClient httpClient
              \<lparr> Scheme = ''https'', Host = ''test.realexpayments.com'', URL.Path = [] \<rparr>))
       \<and> applyOptions (earlier @ [option]) client = option (applyOptions earlier client)"
  using assms
  by (auto simp add: NewClient_def url_Parse_DefaultBaseURL_def Let_def HasSuffix_slash
      defaultClient_def applyOptions_append)

theorem NewClient_validates_witness:
  "NewClient validServer
       [withBaseURL \<lparr> Scheme = ''https'', Host = ''testing.go'', URL.Path = ''/api'' \<rparr>,
        withHashSecret ''testing'',
        withBaseURL \<lparr> Scheme = ''https'', Host = ''testing.go'', URL.Path = ''/api/'' \<rparr>]
     = Done (Inl (TrailingSlash \<lparr> Scheme = ''https'', Host = ''testing.go'', URL.Path = ''/api/'' \<rparr>))
   \<and> NewClient validServer
       [withBaseURL \<lparr> Scheme = ''https'', Host = ''testing.go'', URL.Path = ''/api/'' \<rparr>,
        withBaseURL \<lparr> Scheme = ''https'', Host = ''testing.go'', URL.Path = ''/api'' \<rparr>]
     = Done (Inr (defaultClient validServer
          \<lparr> Scheme = ''https'', Host = ''testing.go'', URL.Path = ''/api'' \<rparr>))"
  using
    NewClient_validates
      [of "[withBaseURL \<lparr> Scheme = ''https'', Host = ''testing.go'', URL.Path = ''/api'' \<rparr>,
            withHashSecret ''testing'',
            withBaseURL \<lparr> Scheme = ''https'', Host = ''testing.go'', URL.Path = ''/api/'' \<rparr>]"
          validServer
          "\<lparr> Scheme = ''https'', Host = ''testing.go'', URL.Path = ''/api/'' \<rparr>"]
    NewClient_validates
      [of "[withBaseURL \<lparr> Scheme = ''https'', Host = ''testing.go'', URL.Path = ''/api/'' \<rparr>,
            withBaseURL \<lparr> Scheme = ''https'', Host = ''testing.go'', URL.Path = ''/api'' \<rparr>]"
          validServer
          "\<lparr> Scheme = ''https'', Host = ''testing.go'', URL.Path = ''/api'' \<rparr>"]
  by (simp add: withBaseURL_def withHashSecret_def defaultClient_def HasSuffix_def)

section \<open>Transmission and validation of the response\<close>

text \<open>The signatures of the repository's fixtures, both passes evaluated.\<close>

lemma validResponse_signature:
  "computeChainedSignature
     [''20180731090859'', ''MerchantId'', ''OL0f0VYFQTyNG5IulhsMrg'', ''00'', ''Successful'',
      ''415d5e0f6ad247d3825284d1484bd7e9'', []] ''Po8lRRT67a''
   = ''81c50b9b32a5433deab0c588c0ef89d7e86b757b''"
proof -
  have first: "EncodeToString (sha1_checkSum
      ''20180731090859.MerchantId.OL0f0VYFQTyNG5IulhsMrg.00.Successful.415d5e0f6ad247d3825284d1484bd7e9.'')
      = ''570a111f25eaddad04504da33a3aa587f0ac3ada''"
    by (simp add: sha1_eval)
  have second: "EncodeToString (sha1_checkSum ''570a111f25eaddad04504da33a3aa587f0ac3ada.Po8lRRT67a'')
      = ''81c50b9b32a5433deab0c588c0ef89d7e86b757b''"
    by (simp add: sha1_eval)
  show ?thesis
    by (simp add: computeChainedSignature_def first second)
qed

lemma authRequest_signature:
  "computeChainedSignature
     [''20180614095000'', ''realexsandbox'', ''AiCibJ5UR7utURy_slxhJw'', ''10000'', ''CAD'',
      ''03e28f0e-492e-80bd-20ec318e9334''] ''Po8lRRT67a''
   = ''59a88d763f26bdcbbf4dd65d3b0aec0b1dd5f6f6''"
proof -
  have first: "EncodeToString (sha1_checkSum
      ''20180614095000.realexsandbox.AiCibJ5UR7utURy_slxhJw.10000.CAD.03e28f0e-492e-80bd-20ec318e9334'')
      = ''55d69f7ef20009cf12c054ab58d7bee8a0323284''"
    by (simp add: sha1_eval)
  have second: "EncodeToString (sha1_checkSum ''55d69f7ef20009cf12c054ab58d7bee8a0323284.Po8lRRT67a'')
      = ''59a88d763f26bdcbbf4dd65d3b0aec0b1dd5f6f6''"
    by (simp add: sha1_eval)
  show ?thesis
    by (simp add: computeChainedSignature_def first second)
qed

lemma transmitRequest_exchange:
  assumes "NewRequest lib encode client ''POST'' (service.Path transmitter) (Some request)
             = Done (Inr httpRequest)"
    and "Do lib client httpRequest = Inr (httpResponse, decoded)"
  shows "transmitRequest lib encode client transmitter request =
     Done (if computeChainedSignature
                [ServiceResponse.Timestamp decoded, ServiceResponse.MerchantID decoded,
                 ServiceResponse.OrderID decoded, Result decoded, Message decoded,
                 PasRef decoded, AuthCode decoded] (HashSecret client)
              = ServiceResponse.Sha1Hash decoded
           then (Some (decoded\<lparr>elementsToHash :=
                         [ServiceResponse.Timestamp decoded, ServiceResponse.MerchantID decoded,
                          ServiceResponse.OrderID decoded, Result decoded, Message decoded,
                          PasRef decoded, AuthCode decoded],
                       sharedSecret := HashSecret client\<rparr>),
                 Some httpResponse, None)
           else (None, Some httpResponse, Some (ValidationError httpResponse)))"
  using assms
  by (simp add: transmitRequest_def validateResponseHash_def buildSignature_eq Let_def)

lemma transmitRequest_accepted:
  assumes "transmitRequest lib encode client transmitter request
             = Done (Some response, httpResponse, err)"
  shows "elementsToHash response =
           [ServiceResponse.Timestamp response, ServiceResponse.MerchantID response,
            ServiceResponse.OrderID response, Result response, Message response,
            PasRef response, AuthCode response]"
    and "sharedSecret response = HashSecret client"
    and "ServiceResponse.Sha1Hash response =
           computeChainedSignature (elementsToHash response) (HashSecret client)"
  using assms
  by (auto simp add: transmitRequest_def validateResponseHash_def buildSignature_eq Let_def
      split: run.splits sum.splits prod.splits option.splits if_splits)

lemma invoke_transmits:
  assumes "snd (invoke op lib now client request) = Done (Some response, httpResponse, err)"
  shows "transmitRequest lib encodeRequest client (CardStorage client)
           (fst (invoke op lib now client request)) = Done (Some response, httpResponse, err)"
  using assms
  by (cases op;
      simp add: operation_defs Let_def buildSignature_eq split: option.splits)

lemma transmitRequest_rebate:
  "transmitRequest lib encode (client\<lparr>RebateHashSecret := s\<rparr>) transmitter request
     = transmitRequest lib encode client transmitter request"
  by (simp add: transmitRequest_def NewRequest_def Do_def Let_def
      split: run.split sum.split prod.split option.split)

text \<open>
  C3. Once the exchange has taken place and the response is decoded, what
  \<^verbatim>\<open>transmitRequest\<close> returns is decided by the chained signature of exactly the seven
  fields timestamp, merchant id, order id, result, message, pasref and auth code of the
  decoded response, in this order, under the ordinary secret of the client: the
  \<open>sha1hash\<close> of the response is what the signature is compared with and is not one of
  the elements. Neither the request nor the rebate secret have a part in it, and a
  response that any of the eight operations returns, Credit too, carries this signing
  context.
\<close>

theorem response_signing_context:
  assumes "NewRequest lib encode client ''POST'' (service.Path transmitter) (Some request)
             = Done (Inr httpRequest)"
    and "Do lib client httpRequest = Inr (httpResponse, decoded)"
  shows "transmitRequest lib encode client transmitter request =
     Done (if computeChainedSignature
                [ServiceResponse.Timestamp decoded, ServiceResponse.MerchantID decoded,
                 ServiceResponse.OrderID decoded, Result decoded, Message decoded,
                 PasRef decoded, AuthCode decoded] (HashSecret client)
              = ServiceResponse.Sha1Hash decoded
           then (Some (decoded\<lparr>elementsToHash :=
                         [ServiceResponse.Timestamp decoded, ServiceResponse.MerchantID decoded,
                          ServiceResponse.OrderID decoded, Result decoded, Message decoded,
                          PasRef decoded, AuthCode decoded],
                       sharedSecret := HashSecret client\<rparr>),
                 Some httpResponse, None)
           else (None, Some httpResponse, Some (ValidationError httpResponse)))
   \<and> transmitRequest lib encode (client\<lparr>RebateHashSecret := rebate\<rparr>) transmitter request
       = transmitRequest lib encode client transmitter request
   \<and> (snd (invoke op lib now client request') = Done (Some response, returned, err) \<longrightarrow>
        elementsToHash response =
          [ServiceResponse.Timestamp response, ServiceResponse.MerchantID response,
           ServiceResponse.OrderID response, Result response, Message response,
           PasRef response, AuthCode response]
        \<and> sharedSecret response = HashSecret client
        \<and> ServiceResponse.Sha1Hash response =
            computeChainedSignature (elementsToHash response) (HashSecret client))"
proof (intro conjI impI)
  assume "snd (invoke op lib now client request') = Done (Some response, returned, err)"
  then have accepted: "transmitRequest lib encodeRequest client (CardStorage client)
      (fst (invoke op lib now client request')) = Done (Some response, returned, err)"
    by (rule invoke_transmits)
  from accepted show "elementsToHash response =
      [ServiceResponse.Timestamp response, ServiceResponse.MerchantID response,
       ServiceResponse.OrderID response, Result response, Message response,
       PasRef response, AuthCode response]"
    by (rule transmitRequest_accepted)
  from accepted show "sharedSecret response = HashSecret client"
    by (rule transmitRequest_accepted)
  from accepted show "ServiceResponse.Sha1Hash response =
      computeChainedSignature (elementsToHash response) (HashSecret client)"
    by (rule transmitRequest_accepted)
qed (rule transmitRequest_exchange [OF assms], rule transmitRequest_rebate)

lemma test_NewRequest:
  "NewRequest testLibrary encodeRequest (testClient server) ''POST''
       (service.Path (CardStorage (testClient server))) (Some request)
     = Done (Inr \<lparr> Method = ''POST'',
                    URL = \<lparr> Scheme = ''http'', Host = ''127.0.0.1'', URL.Path = ''/epage-remote.cgi'' \<rparr>,
                    ContentType = ''application/xml'',
                    HTTPRequest.Body = Some (marshalRequest request) \<rparr>)"
  by (simp add: NewRequest_def testLibrary_def testClient_def defaultClient_def testURL_def
      DefaultPath_def encodeRequest_def)

lemma test_Do_valid:
  "Do testLibrary (testClient validServer) req
     = Inr (\<lparr> StatusCode = 200, HTTPResponse.Body = ''valid'', Request = req \<rparr>, validResponse)"
  by (simp add: Do_def testLibrary_def testClient_def defaultClient_def validServer_def)

lemma test_Do_invalid:
  "Do testLibrary (testClient invalidServer) req
     = Inr (\<lparr> StatusCode = 200, HTTPResponse.Body = ''invalid'', Request = req \<rparr>, invalidResponse)"
  by (simp add: Do_def testLibrary_def testClient_def defaultClient_def invalidServer_def)

theorem response_signing_context_witness:
  "transmitRequest testLibrary encodeRequest (testClient validServer)
       (CardStorage (testClient validServer)) authRequest
     = Done (Some (validResponse\<lparr>elementsToHash :=
                     [''20180731090859'', ''MerchantId'', ''OL0f0VYFQTyNG5IulhsMrg'', ''00'',
                      ''Successful'', ''415d5e0f6ad247d3825284d1484bd7e9'', []],
                   sharedSecret := ''Po8lRRT67a''\<rparr>),
             Some \<lparr> StatusCode = 200, HTTPResponse.Body = ''valid'',
                    Request = \<lparr> Method = ''POST'',
                      URL = \<lparr> Scheme = ''http'', Host = ''127.0.0.1'',
                              URL.Path = ''/epage-remote.cgi'' \<rparr>,
                      ContentType = ''application/xml'',
                      HTTPRequest.Body = Some (marshalRequest authRequest) \<rparr> \<rparr>,
             None)
   \<and> (case snd (invoke OpCredit testLibrary testNow (testClient validServer) authRequest) of
        Done (Some response, returned, err) \<Rightarrow>
          sharedSecret response = ''Po8lRRT67a''
          \<and> elementsToHash response =
              [''20180731090859'', ''MerchantId'', ''OL0f0VYFQTyNG5IulhsMrg'', ''00'',
               ''Successful'', ''415d5e0f6ad247d3825284d1484bd7e9'', []]
      | _ \<Rightarrow> False)"
proof -
  let ?client = "testClient validServer"
  have secret: "HashSecret ?client = ''Po8lRRT67a''"
    by (simp add: testClient_def defaultClient_def DefaultHashSecret_def)
  have credit: "snd (invoke OpCredit testLibrary testNow ?client authRequest)
      = transmitRequest testLibrary encodeRequest ?client (CardStorage ?client)
          (fst (invoke OpCredit testLibrary testNow ?client authRequest))"
    by (simp add: Credit_def Let_def buildSignature_eq)
  have "\<exists>response returned err.
      snd (invoke OpCredit testLibrary testNow ?client authRequest)
        = Done (Some response, returned, err)"
    unfolding credit
    by (simp add: transmitRequest_exchange [OF test_NewRequest test_Do_valid] secret
        validResponse_def validResponse_signature)
  then obtain response returned err where
    out: "snd (invoke OpCredit testLibrary testNow ?client authRequest)
        = Done (Some response, returned, err)"
    by blast
  note ctx = response_signing_context
    [OF test_NewRequest test_Do_valid,
     where request = authRequest and op = OpCredit and now = testNow
       and request' = authRequest and response = response and returned = returned
       and err = err and rebate = "''another secret''"]
  from ctx out have
    "sharedSecret response = ''Po8lRRT67a''"
    "elementsToHash response =
       [ServiceResponse.Timestamp response, ServiceResponse.MerchantID response,
        ServiceResponse.OrderID response, Result response, Message response,
        PasRef response, AuthCode response]"
    by (simp_all add: secret)
  moreover have "response = validResponse\<lparr>elementsToHash :=
                     [''20180731090859'', ''MerchantId'', ''OL0f0VYFQTyNG5IulhsMrg'', ''00'',
                      ''Successful'', ''415d5e0f6ad247d3825284d1484bd7e9'', []],
                   sharedSecret := ''Po8lRRT67a''\<rparr>"
    using out unfolding credit
    by (simp add: transmitRequest_exchange [OF test_NewRequest test_Do_valid] secret
        validResponse_def validResponse_signature)
  ultimately show ?thesis
    using ctx out
    by (simp add: secret validResponse_def validResponse_signature)
qed

text \<open>
  C5. Once the exchange has taken place and the response is decoded: if the signature
  computed from the response differs from its \<open>sha1hash\<close>, \<^verbatim>\<open>transmitRequest\<close> returns
  no response, the HTTP response, and a \<open>ValidationError\<close> that holds the HTTP response,
  whose message gives the method and the URL path of the request of the exchange and
  its status code; if they are equal, it returns the decoded response with its signing
  context, the HTTP response, and no error.
\<close>

theorem transmitRequest_verdict:
  assumes "NewRequest lib encode client ''POST'' (service.Path transmitter) (Some request)
             = Done (Inr httpRequest)"
    and "Do lib client httpRequest = Inr (httpResponse, decoded)"
  shows "(buildSignature
            (decoded\<lparr>elementsToHash :=
                [ServiceResponse.Timestamp decoded, ServiceResponse.MerchantID decoded,
                 ServiceResponse.OrderID decoded, Result decoded, Message decoded,
                 PasRef decoded, AuthCode decoded],
              sharedSecret := HashSecret client\<rparr>) \<noteq> Inr (ServiceResponse.Sha1Hash decoded)
          \<longrightarrow> transmitRequest lib encode client transmitter request
                = Done (None, Some httpResponse, Some (ValidationError httpResponse)))
       \<and> (buildSignature
            (decoded\<lparr>elementsToHash :=
                [ServiceResponse.Timestamp decoded, ServiceResponse.MerchantID decoded,
                 ServiceResponse.OrderID decoded, Result decoded, Message decoded,
                 PasRef decoded, AuthCode decoded],
              sharedSecret := HashSecret client\<rparr>) = Inr (ServiceResponse.Sha1Hash decoded)
          \<longrightarrow> transmitRequest lib encode client transmitter request
                = Done (Some (decoded\<lparr>elementsToHash :=
                          [ServiceResponse.Timestamp decoded, ServiceResponse.MerchantID decoded,
                           ServiceResponse.OrderID decoded, Result decoded, Message decoded,
                           PasRef decoded, AuthCode decoded],
                        sharedSecret := HashSecret client\<rparr>),
                        Some httpResponse, None))
       \<and> ValidationError_Error httpResponse =
            ''Validation Hash Error: method: '' @ Method (Request httpResponse)
              @ '', path: '' @ URL.Path (URL (Request httpResponse))
              @ '', status code:'' @ formatInt (StatusCode httpResponse)"
  using assms
  by (simp add: transmitRequest_def validateResponseHash_def Let_def ValidationError_Error_def
      buildSignature_eq)

theorem transmitRequest_verdict_witness:
  "transmitRequest testLibrary encodeRequest (testClient invalidServer)
       (CardStorage (testClient invalidServer)) noAmountRequest
     = Done (None,
             Some \<lparr> StatusCode = 200, HTTPResponse.Body = ''invalid'',
                    Request = \<lparr> Method = ''POST'',
                      URL = \<lparr> Scheme = ''http'', Host = ''127.0.0.1'',
                              URL.Path = ''/epage-remote.cgi'' \<rparr>,
                      ContentType = ''application/xml'',
                      HTTPRequest.Body = Some (marshalRequest noAmountRequest) \<rparr> \<rparr>,
             Some (ValidationError
                \<lparr> StatusCode = 200, HTTPResponse.Body = ''invalid'',
                    Request = \<lparr> Method = ''POST'',
                      URL = \<lparr> Scheme = ''http'', Host = ''127.0.0.1'',
                              URL.Path = ''/epage-remote.cgi'' \<rparr>,
                      ContentType = ''application/xml'',
                      HTTPRequest.Body = Some (marshalRequest noAmountRequest) \<rparr> \<rparr>))
   \<and> ValidationError_Error
         \<lparr> StatusCode = 200, HTTPResponse.Body = ''invalid'',
           Request = \<lparr> Method = ''POST'',
             URL = \<lparr> Scheme = ''http'', Host = ''127.0.0.1'',
                     URL.Path = ''/epage-remote.cgi'' \<rparr>,
             ContentType = ''application/xml'',
             HTTPRequest.Body = Some (marshalRequest noAmountRequest) \<rparr> \<rparr>
       = ''Validation Hash Error: method: POST, path: /epage-remote.cgi, status code:200''
   \<and> transmitRequest testLibrary encodeRequest (testClient validServer)
       (CardStorage (testClient validServer)) noAmountRequest
     = Done (Some (validResponse\<lparr>elementsToHash :=
                     [''20180731090859'', ''MerchantId'', ''OL0f0VYFQTyNG5IulhsMrg'', ''00'',
                      ''Successful'', ''415d5e0f6ad247d3825284d1484bd7e9'', []],
                   sharedSecret := ''Po8lRRT67a''\<rparr>),
             Some \<lparr> StatusCode = 200, HTTPResponse.Body = ''valid'',
                    Request = \<lparr> Method = ''POST'',
                      URL = \<lparr> Scheme = ''http'', Host = ''127.0.0.1'',
                              URL.Path = ''/epage-remote.cgi'' \<rparr>,
                      ContentType = ''application/xml'',
                      HTTPRequest.Body = Some (marshalRequest noAmountRequest) \<rparr> \<rparr>,
             None)"
proof -
  have secret: "HashSecret (testClient server) = ''Po8lRRT67a''" for server
    by (simp add: testClient_def defaultClient_def DefaultHashSecret_def)
  have status: "formatInt 200 = ''200''"
    by (simp add: formatInt_def digitsOf.simps)
  show ?thesis
    using
      transmitRequest_verdict
        [OF test_NewRequest test_Do_invalid, where request = noAmountRequest]
      transmitRequest_verdict
        [OF test_NewRequest test_Do_valid, where request = noAmountRequest]
    by (simp add: secret status buildSignature_eq invalidResponse_def validResponse_def
        validResponse_signature)
qed

text \<open>
  The Authorize test of the repository: the request as the call leaves it, with the
  signature the test expects, and the wire document the test server compares with.
\<close>

lemma Authorize_fixture:
  "fst (invoke OpAuthorize testLibrary testNow (testClient validServer) authRequest)
     = authRequest
         \<lparr> CardStorageRequest.Type := ''receipt-in'',
           CardStorageRequest.Timestamp := ''20180614095000'',
           CardStorageRequest.MerchantID := ''realexsandbox'',
           CardStorageRequest.Sha1Hash := ''59a88d763f26bdcbbf4dd65d3b0aec0b1dd5f6f6'',
           elementsToHash :=
             [''20180614095000'', ''realexsandbox'', ''AiCibJ5UR7utURy_slxhJw'', ''10000'',
              ''CAD'', ''03e28f0e-492e-80bd-20ec318e9334''],
           sharedSecret := ''Po8lRRT67a'' \<rparr>"
proof -
  have now: "formatTime testNow ''20060102150405'' = ''20180614095000''"
    by (simp add: formatTime_def testNow_def Time_Format_def appendInt_def digitsOf.simps)
  show ?thesis
    by (simp add: Authorize_def Let_def buildSignature_eq now authRequest_def testClient_def
        defaultClient_def DefaultMerchantID_def DefaultHashSecret_def authRequest_signature)
qed

lemma Authorize_fixture_document:
  "marshalRequest (fst (invoke OpAuthorize testLibrary testNow (testClient validServer) authRequest))
     = Element ''request'' [(''type'', ''receipt-in''), (''timestamp'', ''20180614095000'')]
         [Element ''merchantid'' [] [CharData ''realexsandbox''],
          Element ''account'' [] [CharData ''internet''],
          Element ''channel'' [] [CharData ''ECOM''],
          Element ''orderid'' [] [CharData ''AiCibJ5UR7utURy_slxhJw''],
          Element ''payerref'' [] [CharData ''03e28f0e-492e-80bd-20ec318e9334''],
          Element ''paymentmethod'' [] [CharData ''3c4af936-483e-a393-f558bec2fb2a''],
          Element ''sha1hash'' [] [CharData ''59a88d763f26bdcbbf4dd65d3b0aec0b1dd5f6f6''],
          Element ''amount'' [(''currency'', ''CAD'')] [CharData ''10000''],
          Element ''autosettle'' [(''flag'', ''1'')] [],
          Element ''paymentdata'' []
            [Element ''cvn'' [] [Element ''number'' [] [CharData ''123'']]]]"
  unfolding Authorize_fixture
  by (simp add: marshalRequest_def authRequest_def textElement_def omitempty_def pointer_def
      marshalAmount_def marshalAutoSettle_def marshalPaymentData_def)

end
